theory Spec2Isabelle
  imports Main "HOL-Library.AList"
begin

section \<open>Syntax trees\<close>

text \<open>
  The program works on the trees of Python's \<^verbatim>\<open>ast\<close> module. One datatype holds every
  node class the code tests with \<^verbatim>\<open>isinstance\<close>, with the fields in the order of the
  class's \<^verbatim>\<open>_fields\<close>; every other class (\<^verbatim>\<open>If\<close>, \<^verbatim>\<open>For\<close>, \<^verbatim>\<open>Compare\<close>, \<^verbatim>\<open>Pass\<close>,
  \<^verbatim>\<open>AsyncFunctionDef\<close>, ...) is \<open>Other\<close> with its class name and its child nodes in field
  order. Operator and expression-context objects are leaves that no test of the program
  matches; operators are kept as a field value and contexts are left out.
\<close>

text \<open>A finite float is a mantissa and a binary exponent; the program looks only at the
  kind of a literal value and at its \<^verbatim>\<open>str\<close>.\<close>

datatype pyfloat = PyFloat int int

datatype pyvalue =
    CStr string
  | CBool bool
  | CInt int
  | CFloat pyfloat
  | CNone
  | CBytes string
  | CEllipsis
  | CComplex pyfloat pyfloat

datatype operator =
    Add | Sub | Mult | MatMult | Div | Mod | Pow_op
  | LShift | RShift | BitOr | BitXor | BitAnd | FloorDiv

datatype unaryop = Invert | Not_op | UAdd | USub

datatype node =
    Module "node list"
  | FunctionDef string node "node list" "node list" "node option" int
  | ClassDef string "node list" "node list" "node list" "node list" int
  | Return "node option"
  | Assign "node list" node int
  | AnnAssign node node "node option" int
  | Import "node list"
  | ImportFrom "string option" "node list"
  | Expr node
  | Constant pyvalue
  | Name string
  | ListE "node list"
  | DictE "node option list" "node list"
  | TupleE "node list"
  | SetE "node list"
  | Call node "node list" "node list" int
  | Attribute node string
  | BinOp node operator node
  | UnaryOp unaryop node
  | Subscript node node
  | Arguments "node list" "node list" "node option" "node list" "node option list"
      "node option" "node list"
  | Arg string "node option"
  | Keyword "string option" node
  | Alias string "string option"
  | Other string "node list"

text \<open>
  Field order of the constructors:
  \<open>FunctionDef name args body decorator_list returns lineno\<close>,
  \<open>ClassDef name bases keywords body decorator_list lineno\<close>,
  \<open>Assign targets value lineno\<close>, \<open>AnnAssign target annotation value lineno\<close>,
  \<open>ImportFrom module names\<close>, \<open>DictE keys values\<close>, \<open>Call func args keywords lineno\<close>,
  \<open>Attribute value attr\<close>, \<open>BinOp left op right\<close>, \<open>Subscript value slice\<close>,
  \<open>Arguments posonlyargs args vararg kwonlyargs kw_defaults kwarg defaults\<close>,
  \<open>Arg arg annotation\<close>, \<open>Keyword arg value\<close>, \<open>Alias name asname\<close>.
\<close>

fun opt_nodes :: "node option \<Rightarrow> node list" where
  "opt_nodes None = []"
| "opt_nodes (Some n) = [n]"

text \<open>\<^verbatim>\<open>ast.iter_child_nodes\<close>: the fields in order, a list field item by item, an absent
  optional field skipped.\<close>

fun iter_child_nodes :: "node \<Rightarrow> node list" where
  "iter_child_nodes (Module body) = body"
| "iter_child_nodes (FunctionDef name args body decorator_list returns lineno) =
     args # body @ decorator_list @ opt_nodes returns"
| "iter_child_nodes (ClassDef name bases keywords body decorator_list lineno) =
     bases @ keywords @ body @ decorator_list"
| "iter_child_nodes (Return val) = opt_nodes val"
| "iter_child_nodes (Assign targets val lineno) = targets @ [val]"
| "iter_child_nodes (AnnAssign target annotation val lineno) =
     target # annotation # opt_nodes val"
| "iter_child_nodes (Import names) = names"
| "iter_child_nodes (ImportFrom modname names) = names"
| "iter_child_nodes (Expr val) = [val]"
| "iter_child_nodes (Constant v) = []"
| "iter_child_nodes (Name ident) = []"
| "iter_child_nodes (ListE elts) = elts"
| "iter_child_nodes (DictE keys vals) = concat (map opt_nodes keys) @ vals"
| "iter_child_nodes (TupleE elts) = elts"
| "iter_child_nodes (SetE elts) = elts"
| "iter_child_nodes (Call func args keywords lineno) = func # args @ keywords"
| "iter_child_nodes (Attribute val attr) = [val]"
| "iter_child_nodes (BinOp left op right) = [left, right]"
| "iter_child_nodes (UnaryOp op operand) = [operand]"
| "iter_child_nodes (Subscript val slice) = [val, slice]"
| "iter_child_nodes (Arguments posonlyargs args vararg kwonlyargs kw_defaults kwarg defaults) =
     posonlyargs @ args @ opt_nodes vararg @ kwonlyargs @ concat (map opt_nodes kw_defaults)
       @ opt_nodes kwarg @ defaults"
| "iter_child_nodes (Arg a annotation) = opt_nodes annotation"
| "iter_child_nodes (Keyword a val) = [val]"
| "iter_child_nodes (Alias name asname) = []"
| "iter_child_nodes (Other cls cs) = cs"

text \<open>The weight of a node, for the termination of the traversals: a node weighs more
  than its children together.\<close>

definition weight :: "node \<Rightarrow> nat" where
  "weight n = 2 * size n + 1"

lemma weight_list: "sum_list (map weight ns) \<le> 2 * size_list size ns"
  by (induction ns) (auto simp: weight_def)

lemma weight_opt: "sum_list (map weight (opt_nodes v)) \<le> 2 * size_option size v"
  by (cases v) (auto simp: weight_def)

lemma weight_opt_list:
  "sum_list (map weight (concat (map opt_nodes vs))) \<le> 2 * size_list (size_option size) vs"
proof (induction vs)
  case Nil
  show ?case by simp
next
  case (Cons v vs)
  have "sum_list (map weight (opt_nodes v)) \<le> 2 * size_option size v"
    by (rule weight_opt)
  with Cons show ?case by simp
qed

lemma weight_children: "sum_list (map weight (iter_child_nodes n)) < weight n"
proof (cases n)
  case (Module b)
  with weight_list [of b] show ?thesis by (simp add: weight_def)
next
  case (FunctionDef nm a b d r l)
  with weight_list [of b] weight_list [of d] weight_opt [of r] show ?thesis
    by (simp add: weight_def)
next
  case (ClassDef nm bs ks b d l)
  with weight_list [of bs] weight_list [of ks] weight_list [of b] weight_list [of d]
  show ?thesis by (simp add: weight_def)
next
  case (Return v)
  with weight_opt [of v] show ?thesis by (simp add: weight_def)
next
  case (Assign ts v l)
  with weight_list [of ts] show ?thesis by (simp add: weight_def)
next
  case (AnnAssign t a v l)
  with weight_opt [of v] show ?thesis by (simp add: weight_def)
next
  case (Import ns)
  with weight_list [of ns] show ?thesis by (simp add: weight_def)
next
  case (ImportFrom m ns)
  with weight_list [of ns] show ?thesis by (simp add: weight_def)
next
  case (ListE es)
  with weight_list [of es] show ?thesis by (simp add: weight_def)
next
  case (DictE ks vs)
  with weight_list [of vs] weight_opt_list [of ks] show ?thesis by (simp add: weight_def)
next
  case (TupleE es)
  with weight_list [of es] show ?thesis by (simp add: weight_def)
next
  case (SetE es)
  with weight_list [of es] show ?thesis by (simp add: weight_def)
next
  case (Call f a k l)
  with weight_list [of a] weight_list [of k] show ?thesis by (simp add: weight_def)
next
  case (Arguments p a va ko kd kw d)
  with weight_list [of p] weight_list [of a] weight_list [of ko] weight_list [of d]
    weight_opt [of va] weight_opt [of kw] weight_opt_list [of kd]
  show ?thesis by (simp add: weight_def)
next
  case (Arg a an)
  with weight_opt [of an] show ?thesis by (simp add: weight_def)
next
  case (Other c cs)
  with weight_list [of cs] show ?thesis by (simp add: weight_def)
qed (simp_all add: weight_def)

lemma weight_child: "c \<in> set (iter_child_nodes n) \<Longrightarrow> weight c < weight n"
proof -
  assume "c \<in> set (iter_child_nodes n)"
  then have "weight c \<le> sum_list (map weight (iter_child_nodes n))"
    by (simp add: member_le_sum_list)
  with weight_children [of n] show ?thesis by simp
qed

text \<open>\<^verbatim>\<open>ast.walk\<close>: breadth first, from a queue; a node is yielded when it is taken from
  the queue and its children are put at the end.\<close>

function walk_todo :: "node list \<Rightarrow> node list" where
  "walk_todo [] = []"
| "walk_todo (n # todo) = n # walk_todo (todo @ iter_child_nodes n)"
  by pat_completeness auto
termination
proof (relation "measure (\<lambda>todo. sum_list (map weight todo))")
  show "wf (measure (\<lambda>todo. sum_list (map weight todo)))" by simp
next
  fix n :: node and todo :: "node list"
  show "(todo @ iter_child_nodes n, n # todo) \<in> measure (\<lambda>todo. sum_list (map weight todo))"
    using weight_children [of n] by simp
qed

definition walk :: "node \<Rightarrow> node list" where
  "walk n = walk_todo [n]"


section \<open>What the program takes from the Python runtime\<close>

text \<open>
  Three built-ins the code calls are taken as parameters: \<^verbatim>\<open>str(value)\<close> on the value of a
  literal, \<^verbatim>\<open>str(node)\<close> on a node object (the default rendering of an object), and the order
  in which the elements of \<^verbatim>\<open>set(xs)\<close> are iterated, which the language leaves open.
\<close>

record builtins =
  str_value :: "pyvalue \<Rightarrow> string"
  str_node :: "node \<Rightarrow> string"
  set_iter :: "string list \<Rightarrow> string list"

text \<open>Truth value of an \<^verbatim>\<open>Optional[str]\<close> in a condition: \<^verbatim>\<open>None\<close> and the empty string are
  false.\<close>

fun truthy :: "string option \<Rightarrow> bool" where
  "truthy None = False"
| "truthy (Some s) = (s \<noteq> [])"

text \<open>An \<^verbatim>\<open>Optional[str]\<close> inside an f-string.\<close>

fun fmt :: "string option \<Rightarrow> string" where
  "fmt None = ''None''"
| "fmt (Some s) = s"

fun join :: "string \<Rightarrow> string list \<Rightarrow> string" where
  "join sep [] = []"
| "join sep [x] = x"
| "join sep (x # y # ys) = x @ sep @ join sep (y # ys)"

section \<open>Type-name reconstruction\<close>

text \<open>\<^verbatim>\<open>ASTAnalyzer._get_type_name\<close> (analyzer.py).\<close>

function (sequential) ASTAnalyzer_get_type_name :: "builtins \<Rightarrow> node option \<Rightarrow> string option" where
  "ASTAnalyzer_get_type_name py None = None"
| "ASTAnalyzer_get_type_name py (Some (Name ident)) = Some ident"
| "ASTAnalyzer_get_type_name py (Some (Attribute val attr)) =
     Some (fmt (ASTAnalyzer_get_type_name py (Some val)) @ ''.'' @ attr)"
| "ASTAnalyzer_get_type_name py (Some (Subscript val slice)) =
     (let base = ASTAnalyzer_get_type_name py (Some val);
          slice_name = ASTAnalyzer_get_type_name py (Some slice)
      in Some (fmt base @ ''['' @ fmt slice_name @ '']''))"
| "ASTAnalyzer_get_type_name py (Some (Constant v)) = Some (str_value py v)"
| "ASTAnalyzer_get_type_name py (Some n) = Some (str_node py n)"
  by pat_completeness auto
termination
  by (relation "measure (\<lambda>(py, n). case n of None \<Rightarrow> 0 | Some m \<Rightarrow> Suc (size m))") auto

text \<open>\<^verbatim>\<open>TypeInferrer._get_type_name\<close> (infer.py).\<close>

function (sequential) TypeInferrer_get_type_name :: "builtins \<Rightarrow> node option \<Rightarrow> string option" where
  "TypeInferrer_get_type_name py None = None"
| "TypeInferrer_get_type_name py (Some (Name ident)) = Some ident"
| "TypeInferrer_get_type_name py (Some (Attribute val attr)) =
     Some (fmt (TypeInferrer_get_type_name py (Some val)) @ ''.'' @ attr)"
| "TypeInferrer_get_type_name py (Some (Subscript val slice)) =
     (let base = TypeInferrer_get_type_name py (Some val);
          slice_name = TypeInferrer_get_type_name py (Some slice)
      in Some (fmt base @ ''['' @ fmt slice_name @ '']''))"
| "TypeInferrer_get_type_name py (Some (Constant v)) = Some (str_value py v)"
| "TypeInferrer_get_type_name py (Some n) = Some (str_node py n)"
  by pat_completeness auto
termination
  by (relation "measure (\<lambda>(py, n). case n of None \<Rightarrow> 0 | Some m \<Rightarrow> Suc (size m))") auto

section \<open>The inference engine (infer.py)\<close>

text \<open>A signature is the dictionary with the optional keys \<^verbatim>\<open>'args'\<close> and \<^verbatim>\<open>'returns'\<close>; a
  dictionary is an association list in insertion order, and storing under a key that is
  present replaces the value in place.\<close>

record signature =
  sig_args :: "(string \<times> string) list option"
  sig_returns :: "string option"

record inferrer =
  type_map :: "(string \<times> string) list"
  function_signatures :: "(string \<times> signature) list"
  variable_types :: "(string \<times> string) list"

definition empty_signature :: signature where
  "empty_signature = \<lparr>sig_args = None, sig_returns = None\<rparr>"

fun get_constant_type :: "pyvalue \<Rightarrow> string" where
  "get_constant_type (CStr s) = ''str''"
| "get_constant_type (CBool b) = ''bool''"
| "get_constant_type (CInt i) = ''int''"
| "get_constant_type (CFloat f) = ''float''"
| "get_constant_type CNone = ''None''"
| "get_constant_type (CBytes b) = ''bytes''"
| "get_constant_type CEllipsis = ''ellipsis''"
| "get_constant_type (CComplex re im) = ''complex''"

definition infer_call_type :: "inferrer \<Rightarrow> node \<Rightarrow> string option" where
  "infer_call_type st n =
     (case n of
        Call func args keywords lineno \<Rightarrow>
          (case func of
             Name func_name \<Rightarrow>
               (case map_of (function_signatures st) func_name of
                  Some sg \<Rightarrow> sig_returns sg
                | None \<Rightarrow> None)
           | _ \<Rightarrow> None)
      | _ \<Rightarrow> None)"

fun infer_attribute_type :: "inferrer \<Rightarrow> node \<Rightarrow> string option" where
  "infer_attribute_type st n = None"

function infer_expression_type :: "inferrer \<Rightarrow> node \<Rightarrow> string option"
  and infer_binop_type :: "inferrer \<Rightarrow> node \<Rightarrow> operator \<Rightarrow> node \<Rightarrow> string option"
  and infer_unaryop_type :: "inferrer \<Rightarrow> unaryop \<Rightarrow> node \<Rightarrow> string option" where
  "infer_expression_type st (Constant v) = Some (get_constant_type v)"
| "infer_expression_type st (Name ident) = map_of (variable_types st) ident"
| "infer_expression_type st (ListE elts) = Some ''List''"
| "infer_expression_type st (DictE keys vals) = Some ''Dict''"
| "infer_expression_type st (TupleE elts) = Some ''Tuple''"
| "infer_expression_type st (SetE elts) = Some ''Set''"
| "infer_expression_type st (Call func args keywords lineno) =
     infer_call_type st (Call func args keywords lineno)"
| "infer_expression_type st (Attribute val attr) = infer_attribute_type st (Attribute val attr)"
| "infer_expression_type st (BinOp left op right) = infer_binop_type st left op right"
| "infer_expression_type st (UnaryOp op operand) = infer_unaryop_type st op operand"
| "infer_expression_type st (Module v) = None"
| "infer_expression_type st (FunctionDef v va vb vc vd ve) = None"
| "infer_expression_type st (ClassDef v va vb vc vd ve) = None"
| "infer_expression_type st (Return v) = None"
| "infer_expression_type st (Assign v va vb) = None"
| "infer_expression_type st (AnnAssign v va vb vc) = None"
| "infer_expression_type st (Import v) = None"
| "infer_expression_type st (ImportFrom v va) = None"
| "infer_expression_type st (Expr v) = None"
| "infer_expression_type st (Subscript v va) = None"
| "infer_expression_type st (Arguments v va vb vc vd ve vf) = None"
| "infer_expression_type st (Arg v va) = None"
| "infer_expression_type st (Keyword v va) = None"
| "infer_expression_type st (Alias v va) = None"
| "infer_expression_type st (Other v va) = None"
| "infer_binop_type st left op right =
     (let left_type = infer_expression_type st left;
          right_type = infer_expression_type st right
      in if op \<in> {Add, Sub, Mult, Div} then
           if left_type = Some ''str'' \<and> right_type = Some ''str'' then Some ''str''
           else if left_type \<in> {Some ''int'', Some ''float''}
                   \<and> right_type \<in> {Some ''int'', Some ''float''} then
             (if Some ''float'' \<in> {left_type, right_type} then Some ''float'' else Some ''int'')
           else left_type
         else left_type)"
| "infer_unaryop_type st op operand =
     (let operand_type = infer_expression_type st operand
      in if op \<in> {UAdd, USub} then
           if operand_type \<in> {Some ''int'', Some ''float''} then operand_type
           else operand_type
         else operand_type)"
  by pat_completeness auto
termination
  by (relation "measure (\<lambda>x. case x of
          Inl (st, n) \<Rightarrow> 2 * size n
        | Inr (Inl (st, l, op, r)) \<Rightarrow> 2 * (size l + size r) + 1
        | Inr (Inr (st, op, n)) \<Rightarrow> 2 * size n + 1)") auto


text \<open>A dictionary display \<^verbatim>\<open>{k1: v1, k2: v2, ...}\<close> stores its items from left to right.\<close>

definition dict_display :: "(string \<times> 'v) list \<Rightarrow> (string \<times> 'v) list" where
  "dict_display items = fold (\<lambda>(k, v) d. AList.update k v d) items []"

definition method_type_items :: "(string \<times> string) list" where
  "method_type_items =
    [(''append'', ''List''), (''extend'', ''List''), (''insert'', ''List''),
     (''remove'', ''List''), (''pop'', ''List''), (''clear'', ''List''),
     (''index'', ''List''), (''count'', ''List''), (''sort'', ''List''),
     (''reverse'', ''List''), (''copy'', ''List''),
     (''update'', ''Dict''), (''get'', ''Dict''), (''setdefault'', ''Dict''),
     (''popitem'', ''Dict''), (''keys'', ''Dict''), (''values'', ''Dict''),
     (''items'', ''Dict''),
     (''add'', ''Set''), (''remove'', ''Set''), (''discard'', ''Set''),
     (''pop'', ''Set''), (''clear'', ''Set''), (''union'', ''Set''),
     (''intersection'', ''Set''), (''difference'', ''Set''),
     (''symmetric_difference'', ''Set''),
     (''strip'', ''str''), (''split'', ''str''), (''join'', ''str''),
     (''replace'', ''str''), (''upper'', ''str''), (''lower'', ''str''),
     (''capitalize'', ''str''), (''title'', ''str'')]"

definition method_type_map :: "(string \<times> string) list" where
  "method_type_map = dict_display method_type_items"

definition infer_type_from_method :: "string \<Rightarrow> string option" where
  "infer_type_from_method method_name = map_of method_type_map method_name"

definition infer_type_from_operation :: "operator \<Rightarrow> string option" where
  "infer_type_from_operation op =
     (if op \<in> {Add, Sub, Mult, Div, Mod, Pow_op} then Some ''int''
      else if op = MatMult then Some ''Any''
      else if op \<in> {LShift, RShift, BitOr, BitXor, BitAnd} then Some ''int''
      else None)"

text \<open>\<^verbatim>\<open>[arg.arg for arg in func.args.args]\<close>.\<close>

definition func_args_args :: "node \<Rightarrow> node list" where
  "func_args_args func =
     (case func of
        FunctionDef name arguments body decorator_list returns lineno \<Rightarrow>
          (case arguments of
             Arguments posonlyargs args vararg kwonlyargs kw_defaults kwarg defaults \<Rightarrow> args
           | _ \<Rightarrow> [])
      | _ \<Rightarrow> [])"

definition arg_names :: "node \<Rightarrow> string list" where
  "arg_names func = [a. Arg a annotation \<leftarrow> func_args_args func]"

text \<open>The body of the loop of \<^verbatim>\<open>_infer_argument_types\<close>, for one node of the walk.\<close>

definition infer_argument_types_node ::
  "string list \<Rightarrow> node \<Rightarrow> (string \<times> string) list \<Rightarrow> (string \<times> string) list" where
  "infer_argument_types_node names n arg_types =
     (case n of
        Call func args keywords lineno \<Rightarrow>
          (case func of
             Attribute val attr \<Rightarrow>
               (case val of
                  Name arg_name \<Rightarrow>
                    (if arg_name \<in> set names then
                       (let method_type = infer_type_from_method attr
                        in if truthy method_type
                           then AList.update arg_name (the method_type) arg_types
                           else arg_types)
                     else arg_types)
                | _ \<Rightarrow> arg_types)
           | _ \<Rightarrow> arg_types)
      | BinOp left op right \<Rightarrow>
          (case left of
             Name arg_name \<Rightarrow>
               (if arg_name \<in> set names then
                  (let op_type = infer_type_from_operation op
                   in if truthy op_type then AList.update arg_name (the op_type) arg_types
                      else arg_types)
                else arg_types)
           | _ \<Rightarrow> arg_types)
      | _ \<Rightarrow> arg_types)"

definition infer_argument_types :: "node \<Rightarrow> (string \<times> string) list option" where
  "infer_argument_types func =
     (let arg_types = fold (infer_argument_types_node (arg_names func)) (walk func) []
      in if arg_types \<noteq> [] then Some arg_types else None)"

text \<open>The body of the loop of \<^verbatim>\<open>_infer_return_type\<close>: what one node of the walk appends to
  \<^verbatim>\<open>return_types\<close>.\<close>

definition return_types_node :: "inferrer \<Rightarrow> node \<Rightarrow> string list" where
  "return_types_node st n =
     (case n of
        Return (Some val) \<Rightarrow>
          (let return_type = infer_expression_type st val
           in if truthy return_type then [the return_type] else [])
      | _ \<Rightarrow> [])"

definition collect_return_types :: "inferrer \<Rightarrow> node \<Rightarrow> string list" where
  "collect_return_types st func = concat (map (return_types_node st) (walk func))"

definition infer_return_type :: "builtins \<Rightarrow> inferrer \<Rightarrow> node \<Rightarrow> string option" where
  "infer_return_type py st func =
     (let return_types = collect_return_types st func
      in if return_types \<noteq> [] then
           if length (remdups return_types) = 1 then Some (hd return_types)
           else Some (''Union['' @ join '', '' (set_iter py return_types) @ '']'')
         else None)"

definition infer_function_signature :: "builtins \<Rightarrow> inferrer \<Rightarrow> node \<Rightarrow> signature option" where
  "infer_function_signature py st func =
     (let sg = empty_signature;
          arg_types = infer_argument_types func;
          sg = (if arg_types \<noteq> None \<and> arg_types \<noteq> Some [] then sg\<lparr>sig_args := arg_types\<rparr>
                else sg);
          return_type = infer_return_type py st func;
          sg = (if truthy return_type then sg\<lparr>sig_returns := return_type\<rparr> else sg)
      in if sg \<noteq> empty_signature then Some sg else None)"

text \<open>The three passes: each is a loop over \<^verbatim>\<open>ast.walk(tree)\<close>; the function with the
  suffix \<open>_node\<close> is the body of the loop.\<close>

definition collect_basic_types_node :: "builtins \<Rightarrow> node \<Rightarrow> inferrer \<Rightarrow> inferrer" where
  "collect_basic_types_node py n st =
     (case n of
        AnnAssign target annotation val lineno \<Rightarrow>
          (case target of
             Name ident \<Rightarrow>
               (let type_name = TypeInferrer_get_type_name py (Some annotation)
                in if truthy type_name
                   then st\<lparr>variable_types :=
                             AList.update ident (the type_name) (variable_types st)\<rparr>
                   else st)
           | _ \<Rightarrow> st)
      | FunctionDef name args body decorator_list returns lineno \<Rightarrow>
          (if returns \<noteq> None then
             (let return_type = TypeInferrer_get_type_name py returns
              in if truthy return_type
                 then st\<lparr>function_signatures :=
                           AList.update name \<lparr>sig_args = None, sig_returns = return_type\<rparr>
                             (function_signatures st)\<rparr>
                 else st)
           else st)
      | _ \<Rightarrow> st)"

definition collect_basic_types :: "builtins \<Rightarrow> node \<Rightarrow> inferrer \<Rightarrow> inferrer" where
  "collect_basic_types py tree st = fold (collect_basic_types_node py) (walk tree) st"

definition infer_function_signatures_node :: "builtins \<Rightarrow> node \<Rightarrow> inferrer \<Rightarrow> inferrer" where
  "infer_function_signatures_node py n st =
     (case n of
        FunctionDef name args body decorator_list returns lineno \<Rightarrow>
          (case infer_function_signature py st n of
             Some sg \<Rightarrow>
               st\<lparr>function_signatures := AList.update name sg (function_signatures st)\<rparr>
           | None \<Rightarrow> st)
      | _ \<Rightarrow> st)"

definition infer_function_signatures :: "builtins \<Rightarrow> node \<Rightarrow> inferrer \<Rightarrow> inferrer" where
  "infer_function_signatures py tree st =
     fold (infer_function_signatures_node py) (walk tree) st"

text \<open>The inner loop of the variable pass, for one target of an assignment.\<close>

definition infer_variable_types_target :: "node \<Rightarrow> node \<Rightarrow> inferrer \<Rightarrow> inferrer" where
  "infer_variable_types_target val target st =
     (case target of
        Name ident \<Rightarrow>
          (let inferred_type = infer_expression_type st val
           in if truthy inferred_type
              then st\<lparr>variable_types :=
                        AList.update ident (the inferred_type) (variable_types st)\<rparr>
              else st)
      | _ \<Rightarrow> st)"

definition infer_variable_types_node :: "node \<Rightarrow> inferrer \<Rightarrow> inferrer" where
  "infer_variable_types_node n st =
     (case n of
        Assign targets val lineno \<Rightarrow> fold (infer_variable_types_target val) targets st
      | _ \<Rightarrow> st)"

definition infer_variable_types :: "node \<Rightarrow> inferrer \<Rightarrow> inferrer" where
  "infer_variable_types tree st = fold infer_variable_types_node (walk tree) st"

definition infer_types :: "builtins \<Rightarrow> inferrer \<Rightarrow> node \<Rightarrow> inferrer" where
  "infer_types py st tree =
     (let st = st\<lparr>type_map := [], function_signatures := [], variable_types := []\<rparr>;
          st = collect_basic_types py tree st;
          st = infer_function_signatures py tree st;
          st = infer_variable_types tree st
      in st)"

definition get_inferred_function_signature :: "inferrer \<Rightarrow> string \<Rightarrow> signature option" where
  "get_inferred_function_signature st func_name = map_of (function_signatures st) func_name"

definition get_inferred_variable_type :: "inferrer \<Rightarrow> string \<Rightarrow> string option" where
  "get_inferred_variable_type st var_name = map_of (variable_types st) var_name"


section \<open>The declaration extractor (analyzer.py)\<close>

record config =
  cfg_strict :: bool
  cfg_infer :: bool
  cfg_fix :: bool
  cfg_format :: string
  cfg_exclude :: "string list"
  cfg_ignore_errors :: "string list"
  cfg_max_line_length :: int
  cfg_python_version :: string

text \<open>What opening, reading and parsing a file gives: a tree, a \<^verbatim>\<open>SyntaxError\<close> or any other
  exception, each exception with its \<^verbatim>\<open>str\<close>.\<close>

datatype parse_result = Parsed node | Syntax_error string | Other_error string

definition parse_file ::
  "(string \<Rightarrow> parse_result) \<Rightarrow> string \<Rightarrow> string list \<Rightarrow> node option \<times> string list" where
  "parse_file read_and_parse file_path stderr =
     (case read_and_parse file_path of
        Parsed tree \<Rightarrow> (Some tree, stderr)
      | Syntax_error e \<Rightarrow>
          (None, stderr @ [''Syntax error in '' @ file_path @ '': '' @ e])
      | Other_error e \<Rightarrow>
          (None, stderr @ [''Error parsing '' @ file_path @ '': '' @ e]))"

record arg_info =
  arg_name :: string
  arg_has_annotation :: bool
  arg_annotation :: "string option"

record function_sig =
  fs_name :: string
  fs_lineno :: int
  fs_args :: "arg_info list"
  fs_returns :: "string option"
  fs_has_return_annotation :: bool

record assignment =
  as_name :: string
  as_lineno :: int
  as_has_annotation :: bool
  as_value_type :: "string option"

definition extract_function_args :: "builtins \<Rightarrow> node \<Rightarrow> arg_info list" where
  "extract_function_args py func =
     [\<lparr>arg_name = a, arg_has_annotation = (annotation \<noteq> None),
       arg_annotation = (if annotation \<noteq> None then ASTAnalyzer_get_type_name py annotation
                         else None)\<rparr>.
      Arg a annotation \<leftarrow> func_args_args func]"

definition extract_return_type :: "builtins \<Rightarrow> node \<Rightarrow> string option" where
  "extract_return_type py func =
     (case func of
        FunctionDef name args body decorator_list returns lineno \<Rightarrow>
          (if returns \<noteq> None then ASTAnalyzer_get_type_name py returns else None)
      | _ \<Rightarrow> None)"

definition get_function_signatures_node :: "builtins \<Rightarrow> node \<Rightarrow> function_sig list" where
  "get_function_signatures_node py n =
     (case n of
        FunctionDef name args body decorator_list returns lineno \<Rightarrow>
          [\<lparr>fs_name = name, fs_lineno = lineno, fs_args = extract_function_args py n,
            fs_returns = extract_return_type py n,
            fs_has_return_annotation = (returns \<noteq> None)\<rparr>]
      | _ \<Rightarrow> [])"

definition get_function_signatures :: "builtins \<Rightarrow> node \<Rightarrow> function_sig list" where
  "get_function_signatures py tree = concat (map (get_function_signatures_node py) (walk tree))"

text \<open>\<^verbatim>\<open>_infer_value_type\<close>: the tests on the literal's value in the order of the source, where
  \<^verbatim>\<open>isinstance(True, int)\<close> holds, since \<^verbatim>\<open>bool\<close> is a subclass of \<^verbatim>\<open>int\<close>.\<close>

fun isinstance_str :: "pyvalue \<Rightarrow> bool" where
  "isinstance_str (CStr s) = True"
| "isinstance_str v = False"

fun isinstance_int :: "pyvalue \<Rightarrow> bool" where
  "isinstance_int (CInt i) = True"
| "isinstance_int (CBool b) = True"
| "isinstance_int v = False"

fun isinstance_float :: "pyvalue \<Rightarrow> bool" where
  "isinstance_float (CFloat f) = True"
| "isinstance_float v = False"

fun isinstance_bool :: "pyvalue \<Rightarrow> bool" where
  "isinstance_bool (CBool b) = True"
| "isinstance_bool v = False"

definition infer_value_type :: "builtins \<Rightarrow> node \<Rightarrow> string option" where
  "infer_value_type py n =
     (case n of
        Constant v \<Rightarrow>
          (if isinstance_str v then Some ''str''
           else if isinstance_int v then Some ''int''
           else if isinstance_float v then Some ''float''
           else if isinstance_bool v then Some ''bool''
           else if v = CNone then Some ''None''
           else None)
      | ListE elts \<Rightarrow> Some ''List''
      | DictE keys vals \<Rightarrow> Some ''Dict''
      | TupleE elts \<Rightarrow> Some ''Tuple''
      | SetE elts \<Rightarrow> Some ''Set''
      | Call func args keywords lineno \<Rightarrow> ASTAnalyzer_get_type_name py (Some func)
      | _ \<Rightarrow> None)"

text \<open>A \<^verbatim>\<open>Name\<close> node has no attribute \<^verbatim>\<open>annotation\<close>, so \<^verbatim>\<open>has_annotation\<close> is false.\<close>

definition get_variable_assignments_node :: "builtins \<Rightarrow> node \<Rightarrow> assignment list" where
  "get_variable_assignments_node py n =
     (case n of
        Assign targets val lineno \<Rightarrow>
          [\<lparr>as_name = ident, as_lineno = lineno, as_has_annotation = False,
            as_value_type = infer_value_type py val\<rparr>.
           Name ident \<leftarrow> targets]
      | _ \<Rightarrow> [])"

definition get_variable_assignments :: "builtins \<Rightarrow> node \<Rightarrow> assignment list" where
  "get_variable_assignments py tree =
     concat (map (get_variable_assignments_node py) (walk tree))"

text \<open>\<^verbatim>\<open>_ASTWalker\<close>, a \<^verbatim>\<open>NodeVisitor\<close>: \<^verbatim>\<open>visit\<close> runs the method of the node's class, and
  each method ends with \<^verbatim>\<open>generic_visit\<close>, which visits the children in field order.\<close>

record walker =
  w_imports :: "(string \<times> string) list"
  w_functions :: "(string \<times> node) list"
  w_classes :: "(string \<times> node) list"
  w_variables :: "(string \<times> node) list"
  w_type_annotations :: "string set"
  w_missing_annotations :: "(string \<times> int) list"

definition empty_walker :: walker where
  "empty_walker = \<lparr>w_imports = [], w_functions = [], w_classes = [], w_variables = [],
     w_type_annotations = {}, w_missing_annotations = []\<rparr>"

text \<open>\<^verbatim>\<open>alias.asname or alias.name\<close>.\<close>

definition asname_or_name :: "string option \<Rightarrow> string \<Rightarrow> string" where
  "asname_or_name asname name = (if truthy asname then the asname else name)"

definition visit_Import_alias :: "node \<Rightarrow> walker \<Rightarrow> walker" where
  "visit_Import_alias a w =
     (case a of
        Alias name asname \<Rightarrow>
          w\<lparr>w_imports := AList.update (asname_or_name asname name) name (w_imports w)\<rparr>
      | _ \<Rightarrow> w)"

definition visit_ImportFrom_alias :: "string \<Rightarrow> node \<Rightarrow> walker \<Rightarrow> walker" where
  "visit_ImportFrom_alias modname a w =
     (case a of
        Alias name asname \<Rightarrow>
          w\<lparr>w_imports := AList.update (asname_or_name asname name) (modname @ ''.'' @ name)
                             (w_imports w)\<rparr>
      | _ \<Rightarrow> w)"

definition visit_FunctionDef_arg :: "config \<Rightarrow> string \<Rightarrow> int \<Rightarrow> node \<Rightarrow> walker \<Rightarrow> walker" where
  "visit_FunctionDef_arg cfg name lineno a w =
     (case a of
        Arg ident annotation \<Rightarrow>
          (if cfg_strict cfg \<and> annotation = None then
             w\<lparr>w_missing_annotations := w_missing_annotations w @
                 [(''parameter '' @ [CHR 0x27] @ ident @ [CHR 0x27] @ '' in function ''
                     @ [CHR 0x27] @ name @ [CHR 0x27], lineno)]\<rparr>
           else w)
      | _ \<Rightarrow> w)"

definition visit_Assign_target :: "node \<Rightarrow> node \<Rightarrow> walker \<Rightarrow> walker" where
  "visit_Assign_target n target w =
     (case target of
        Name ident \<Rightarrow> w\<lparr>w_variables := AList.update ident n (w_variables w)\<rparr>
      | _ \<Rightarrow> w)"

text \<open>The part of each \<^verbatim>\<open>visit_*\<close> method before its \<^verbatim>\<open>generic_visit\<close>.\<close>

definition visit_node :: "config \<Rightarrow> node \<Rightarrow> walker \<Rightarrow> walker" where
  "visit_node cfg n w =
     (case n of
        Import names \<Rightarrow> fold visit_Import_alias names w
      | ImportFrom modname names \<Rightarrow>
          fold (visit_ImportFrom_alias (if truthy modname then the modname else [])) names w
      | FunctionDef name args body decorator_list returns lineno \<Rightarrow>
          (let w = w\<lparr>w_functions := AList.update name n (w_functions w)\<rparr>;
               w = (if cfg_strict cfg \<and> returns = None then
                      w\<lparr>w_missing_annotations := w_missing_annotations w @
                          [(''function '' @ [CHR 0x27] @ name @ [CHR 0x27], lineno)]\<rparr>
                    else w)
           in fold (visit_FunctionDef_arg cfg name lineno) (func_args_args n) w)
      | ClassDef name bases keywords body decorator_list lineno \<Rightarrow>
          w\<lparr>w_classes := AList.update name n (w_classes w)\<rparr>
      | Assign targets val lineno \<Rightarrow> fold (visit_Assign_target n) targets w
      | AnnAssign target annotation val lineno \<Rightarrow>
          (case target of
             Name ident \<Rightarrow> w\<lparr>w_type_annotations := insert ident (w_type_annotations w)\<rparr>
           | _ \<Rightarrow> w)
      | _ \<Rightarrow> w)"

function visit :: "config \<Rightarrow> node \<Rightarrow> walker \<Rightarrow> walker" where
  "visit cfg n w = fold (visit cfg) (iter_child_nodes n) (visit_node cfg n w)"
  by pat_completeness auto
termination
  by (relation "measure (\<lambda>(cfg, n, w). weight n)") (auto simp: weight_child)

definition analyze_ast :: "config \<Rightarrow> node \<Rightarrow> walker" where
  "analyze_ast cfg tree = visit cfg tree empty_walker"


section \<open>The checker (checker.py)\<close>

record issue =
  i_type :: string
  i_message :: string
  i_line :: int
  i_file :: string

text \<open>The reporter is an external sink: the model keeps the sequence of calls made to it.
  An informational notice is kept by its content, not as formatted text.\<close>

datatype notice =
    Inferred_signatures_in string
  | Inferred_signature string signature
  | Inferred_variables_in string
  | Inferred_variable string string
  | Auto_fixing string

datatype report =
    Report_info notice
  | Report_error string int string string
  | Report_warning string int string string

record checker =
  errors :: "issue list"
  warnings :: "issue list"
  inferrer_of :: inferrer
  reported :: "report list"
  stderr :: "string list"

fun digit :: "nat \<Rightarrow> char" where
  "digit n = char_of (48 + n)"

fun str_nat :: "nat \<Rightarrow> string" where
  "str_nat n = (if n < 10 then [digit n] else str_nat (n div 10) @ [digit (n mod 10)])"

definition quoted :: "string \<Rightarrow> string" where
  "quoted s = [CHR 0x27] @ s @ [CHR 0x27]"

definition check_function_signatures_arg ::
  "config \<Rightarrow> string \<Rightarrow> function_sig \<Rightarrow> arg_info \<Rightarrow> checker \<Rightarrow> checker" where
  "check_function_signatures_arg cfg file_path sg a ck =
     (if cfg_strict cfg \<and> \<not> arg_has_annotation a then
        ck\<lparr>warnings := warnings ck @
            [\<lparr>i_type = ''missing_arg_type'',
              i_message = ''Missing type annotation for parameter '' @ quoted (arg_name a)
                        @ '' in function '' @ quoted (fs_name sg),
              i_line = fs_lineno sg, i_file = file_path\<rparr>]\<rparr>
      else ck)"

definition check_function_signatures_sig ::
  "config \<Rightarrow> string \<Rightarrow> function_sig \<Rightarrow> checker \<Rightarrow> checker" where
  "check_function_signatures_sig cfg file_path sg ck =
     (let ck = (if cfg_strict cfg \<and> \<not> fs_has_return_annotation sg then
                  ck\<lparr>errors := errors ck @
                      [\<lparr>i_type = ''missing_return_type'',
                        i_message = ''Missing return type annotation for function ''
                                  @ quoted (fs_name sg),
                        i_line = fs_lineno sg, i_file = file_path\<rparr>]\<rparr>
                else ck)
      in fold (check_function_signatures_arg cfg file_path sg) (fs_args sg) ck)"

definition check_function_signatures ::
  "builtins \<Rightarrow> config \<Rightarrow> string \<Rightarrow> node \<Rightarrow> checker \<Rightarrow> checker" where
  "check_function_signatures py cfg file_path tree ck =
     fold (check_function_signatures_sig cfg file_path) (get_function_signatures py tree) ck"

text \<open>\<^verbatim>\<open>_check_variable_assignments\<close> computes the assignments and does nothing with them.\<close>

definition check_variable_assignments ::
  "builtins \<Rightarrow> config \<Rightarrow> string \<Rightarrow> node \<Rightarrow> checker \<Rightarrow> checker" where
  "check_variable_assignments py cfg file_path tree ck =
     fold (\<lambda>a ck. if as_has_annotation a \<and> truthy (as_value_type a) then ck else ck)
       (get_variable_assignments py tree) ck"

definition check_missing_annotations_item ::
  "config \<Rightarrow> string \<Rightarrow> string \<times> int \<Rightarrow> checker \<Rightarrow> checker" where
  "check_missing_annotations_item cfg file_path it ck =
     (case it of (item, ln) \<Rightarrow>
        if cfg_strict cfg then
          ck\<lparr>errors := errors ck @
              [\<lparr>i_type = ''missing_annotation'',
                i_message = ''Missing type annotation for '' @ item,
                i_line = ln, i_file = file_path\<rparr>]\<rparr>
        else
          ck\<lparr>warnings := warnings ck @
              [\<lparr>i_type = ''missing_annotation'',
                i_message = ''Missing type annotation for '' @ item,
                i_line = ln, i_file = file_path\<rparr>]\<rparr>)"

definition check_missing_annotations ::
  "config \<Rightarrow> string \<Rightarrow> walker \<Rightarrow> checker \<Rightarrow> checker" where
  "check_missing_annotations cfg file_path analysis ck =
     fold (check_missing_annotations_item cfg file_path) (w_missing_annotations analysis) ck"

definition check_function_call :: "config \<Rightarrow> string \<Rightarrow> node \<Rightarrow> checker \<Rightarrow> checker" where
  "check_function_call cfg file_path n ck =
     (case n of
        Call func args keywords lineno \<Rightarrow>
          (case func of
             Name func_name \<Rightarrow>
               (if cfg_infer cfg then
                  (case get_inferred_function_signature (inferrer_of ck) func_name of
                     Some sg \<Rightarrow>
                       (if sg \<noteq> empty_signature \<and> sig_args sg \<noteq> None then
                          (let expected_args = the (sig_args sg);
                               actual_args = args
                           in if length actual_args \<noteq> length expected_args then
                                ck\<lparr>errors := errors ck @
                                    [\<lparr>i_type = ''argument_count_mismatch'',
                                      i_message = ''Function '' @ quoted func_name
                                        @ '' expects '' @ str_nat (length expected_args)
                                        @ '' arguments, got ''
                                        @ str_nat (length actual_args),
                                      i_line = lineno, i_file = file_path\<rparr>]\<rparr>
                              else ck)
                        else ck)
                   | None \<Rightarrow> ck)
                else ck)
           | _ \<Rightarrow> ck)
      | _ \<Rightarrow> ck)"

definition check_assignment :: "string \<Rightarrow> node \<Rightarrow> checker \<Rightarrow> checker" where
  "check_assignment file_path n ck = ck"

definition check_type_mismatches_node :: "config \<Rightarrow> string \<Rightarrow> node \<Rightarrow> checker \<Rightarrow> checker" where
  "check_type_mismatches_node cfg file_path n ck =
     (case n of
        Call func args keywords lineno \<Rightarrow> check_function_call cfg file_path n ck
      | Assign targets val lineno \<Rightarrow> check_assignment file_path n ck
      | _ \<Rightarrow> ck)"

definition check_type_mismatches :: "config \<Rightarrow> string \<Rightarrow> node \<Rightarrow> checker \<Rightarrow> checker" where
  "check_type_mismatches cfg file_path tree ck =
     fold (check_type_mismatches_node cfg file_path) (walk tree) ck"

definition report_info :: "notice \<Rightarrow> checker \<Rightarrow> checker" where
  "report_info m ck = ck\<lparr>reported := reported ck @ [Report_info m]\<rparr>"

definition report_inferred_types :: "string \<Rightarrow> inferrer \<Rightarrow> checker \<Rightarrow> checker" where
  "report_inferred_types file_path inferred_types ck =
     (let function_signatures = function_signatures inferred_types;
          variable_types = variable_types inferred_types;
          ck = (if function_signatures \<noteq> [] then
                  fold (\<lambda>(func_name, sg). report_info (Inferred_signature func_name sg))
                    function_signatures (report_info (Inferred_signatures_in file_path) ck)
                else ck);
          ck = (if variable_types \<noteq> [] then
                  fold (\<lambda>(var_name, var_type). report_info (Inferred_variable var_name var_type))
                    variable_types (report_info (Inferred_variables_in file_path) ck)
                else ck)
      in ck)"

definition report_issues :: "string \<Rightarrow> checker \<Rightarrow> checker" where
  "report_issues file_path ck =
     ck\<lparr>reported := reported ck
          @ map (\<lambda>e. Report_error file_path (i_line e) (i_message e) (i_type e)) (errors ck)
          @ map (\<lambda>w. Report_warning file_path (i_line w) (i_message w) (i_type w)) (warnings ck)\<rparr>"

definition auto_fix_file :: "config \<Rightarrow> string \<Rightarrow> node \<Rightarrow> checker \<Rightarrow> checker" where
  "auto_fix_file cfg file_path tree ck =
     (if \<not> cfg_fix cfg then ck else report_info (Auto_fixing file_path) ck)"

text \<open>\<^verbatim>\<open>check_file\<close>: the result is the returned count and the checker after the call.\<close>

definition check_file ::
  "builtins \<Rightarrow> config \<Rightarrow> (string \<Rightarrow> parse_result) \<Rightarrow> checker \<Rightarrow> string \<Rightarrow> int \<times> checker" where
  "check_file py cfg read_and_parse ck file_path =
     (let ck = ck\<lparr>errors := [], warnings := []\<rparr>;
          (tree, err) = parse_file read_and_parse file_path (stderr ck);
          ck = ck\<lparr>stderr := err\<rparr>
      in case tree of
           None \<Rightarrow> (1, ck)
         | Some tree \<Rightarrow>
             (let analysis = analyze_ast cfg tree;
                  ck = (if cfg_infer cfg then
                          (let inferred_types = infer_types py (inferrer_of ck) tree;
                               ck = ck\<lparr>inferrer_of := inferred_types\<rparr>
                           in report_inferred_types file_path inferred_types ck)
                        else ck);
                  ck = check_function_signatures py cfg file_path tree ck;
                  ck = check_variable_assignments py cfg file_path tree ck;
                  ck = check_missing_annotations cfg file_path analysis ck;
                  ck = check_type_mismatches cfg file_path tree ck;
                  ck = report_issues file_path ck;
                  ck = (if cfg_fix cfg then auto_fix_file cfg file_path tree ck else ck)
              in (int (length (errors ck)), ck)))"

definition get_error_count :: "checker \<Rightarrow> int" where
  "get_error_count ck = int (length (errors ck))"

definition get_warning_count :: "checker \<Rightarrow> int" where
  "get_warning_count ck = int (length (warnings ck))"


section \<open>Initial states and sample parameters\<close>

text \<open>\<^verbatim>\<open>Config()\<close> with the defaults of its constructor.\<close>

definition default_config :: config where
  "default_config = \<lparr>cfg_strict = False, cfg_infer = False, cfg_fix = False,
     cfg_format = ''text'', cfg_exclude = [], cfg_ignore_errors = [],
     cfg_max_line_length = 88, cfg_python_version = ''3.8''\<rparr>"

text \<open>\<^verbatim>\<open>TypeInferrer.__init__\<close> and \<^verbatim>\<open>TypeChecker.__init__\<close>.\<close>

definition empty_inferrer :: inferrer where
  "empty_inferrer = \<lparr>type_map = [], function_signatures = [], variable_types = []\<rparr>"

definition new_checker :: checker where
  "new_checker = \<lparr>errors = [], warnings = [], inferrer_of = empty_inferrer, reported = [],
     stderr = []\<rparr>"

text \<open>One choice of the runtime parameters, for evaluating the program on examples: the
  \<^verbatim>\<open>str\<close> of the values whose rendering is plain, a fixed rendering of node objects, and the
  set's elements in the order of first occurrence.\<close>

definition sample_builtins :: builtins where
  "sample_builtins = \<lparr>
     str_value = (\<lambda>v. case v of
                        CStr s \<Rightarrow> s
                      | CBool b \<Rightarrow> (if b then ''True'' else ''False'')
                      | CNone \<Rightarrow> ''None''
                      | CEllipsis \<Rightarrow> ''Ellipsis''
                      | _ \<Rightarrow> ''<value>''),
     str_node = (\<lambda>n. ''<ast node>''),
     set_iter = remdups\<rparr>"

section \<open>The binary-operation rule as the specification words it\<close>

text \<open>The rule of the specification, read as it is written: \<open>str\<close> for two \<open>str\<close> operands
  under \<open>+\<close>; for two numeric operand types \<open>float\<close> if either is \<open>float\<close> and else \<open>int\<close>; the
  left operand's type in every other combination.\<close>

definition claimed_binop_type :: "operator \<Rightarrow> string option \<Rightarrow> string option \<Rightarrow> string option" where
  "claimed_binop_type op left_type right_type =
     (if op = Add \<and> left_type = Some ''str'' \<and> right_type = Some ''str'' then Some ''str''
      else if left_type \<in> {Some ''int'', Some ''float''}
              \<and> right_type \<in> {Some ''int'', Some ''float''} then
        (if left_type = Some ''float'' \<or> right_type = Some ''float'' then Some ''float''
         else Some ''int'')
      else left_type)"

section \<open>Call-site errors and examples\<close>

text \<open>The error that the check of the call sites raises for one node of the walk, with the
  inference engine in state \<open>st\<close>: none unless the node is a call of a bare name.\<close>

definition mismatch_issue :: "config \<Rightarrow> inferrer \<Rightarrow> string \<Rightarrow> node \<Rightarrow> issue list" where
  "mismatch_issue cfg st file_path n =
     (case n of
        Call func args keywords lineno \<Rightarrow>
          (case func of
             Name func_name \<Rightarrow>
               (if cfg_infer cfg then
                  (case map_of (function_signatures st) func_name of
                     Some sg \<Rightarrow>
                       (case sig_args sg of
                          Some expected \<Rightarrow>
                            (if length args \<noteq> length expected then
                               [\<lparr>i_type = ''argument_count_mismatch'',
                                 i_message = ''Function '' @ quoted func_name
                                   @ '' expects '' @ str_nat (length expected)
                                   @ '' arguments, got '' @ str_nat (length args),
                                 i_line = lineno, i_file = file_path\<rparr>]
                             else [])
                        | None \<Rightarrow> [])
                   | None \<Rightarrow> [])
                else [])
           | _ \<Rightarrow> [])
      | _ \<Rightarrow> [])"

definition is_mismatch :: "issue \<Rightarrow> bool" where
  "is_mismatch i = (i_type i = ''argument_count_mismatch'')"


text \<open>The checker as it stands when the call sites are checked.\<close>

definition inferrer_after :: "builtins \<Rightarrow> config \<Rightarrow> checker \<Rightarrow> node \<Rightarrow> inferrer" where
  "inferrer_after py cfg ck tree =
     (if cfg_infer cfg then infer_types py (inferrer_of ck) tree else inferrer_of ck)"


text \<open>\<^verbatim>\<open>Config(infer=True)\<close>.\<close>

definition infer_config :: config where
  "infer_config = default_config\<lparr>cfg_infer := True\<rparr>"

definition example_call_no_args :: node where
  "example_call_no_args = Module
     [FunctionDef ''f'' (Arguments [] [] None [] [] None []) [Other ''Pass'' []] [] None 1,
      Expr (Call (Name ''f'') [Constant (CInt 1), Constant (CInt 2)] [] 2)]"

definition example_call_mismatch :: node where
  "example_call_mismatch = Module
     [FunctionDef ''g'' (Arguments [] [Arg ''a'' None] None [] [] None [])
        [Expr (Call (Attribute (Name ''a'') ''append'') [Constant (CInt 1)] [] 2)] [] None 1,
      Expr (Call (Name ''g'') [Constant (CInt 1), Constant (CInt 2)] [] 3)]"


text \<open>\<^verbatim>\<open>def f(c):\<close> with \<^verbatim>\<open>if c: return "a"\<close> followed by \<^verbatim>\<open>return 1\<close>.\<close>

definition example_two_returns :: node where
  "example_two_returns =
     FunctionDef ''f'' (Arguments [] [Arg ''c'' None] None [] [] None [])
       [Other ''If'' [Name ''c'', Return (Some (Constant (CStr ''a'')))],
        Return (Some (Constant (CInt 1)))] [] None 1"


text \<open>\<^verbatim>\<open>def add(a, b): return a + b\<close>.\<close>

definition example_unannotated :: node where
  "example_unannotated = Module
     [FunctionDef ''add'' (Arguments [] [Arg ''a'' None, Arg ''b'' None] None [] [] None [])
        [Return (Some (BinOp (Name ''a'') Add (Name ''b'')))] [] None 1]"

section \<open>The variable pass\<close>

text \<open>Whether a node is an assignment with the plain name \<open>x\<close> among its targets.\<close>

definition assigns_name :: "string \<Rightarrow> node \<Rightarrow> bool" where
  "assigns_name x n =
     (case n of Assign targets val lineno \<Rightarrow> Name x \<in> set targets | _ \<Rightarrow> False)"

text \<open>The engine at the moment the variable pass reaches one target of an assignment with
  value \<open>val\<close>: the seed and signature passes are done, the nodes \<open>pre\<close> of the walk and the
  targets \<open>before\<close> of the assignment have been processed.\<close>

definition state_before_target ::
  "builtins \<Rightarrow> inferrer \<Rightarrow> node \<Rightarrow> node list \<Rightarrow> node \<Rightarrow> node list \<Rightarrow> inferrer" where
  "state_before_target py st tree pre val before =
     fold (infer_variable_types_target val) before
       (fold infer_variable_types_node pre
          (infer_function_signatures py tree
             (collect_basic_types py tree
                (st\<lparr>type_map := [], function_signatures := [], variable_types := []\<rparr>))))"

text \<open>\<^verbatim>\<open>x: int = 1\<close> followed by \<^verbatim>\<open>x = a.b\<close>, and by \<^verbatim>\<open>x = "s"\<close>.\<close>

definition example_stale_seed :: node where
  "example_stale_seed = Module
     [AnnAssign (Name ''x'') (Name ''int'') (Some (Constant (CInt 1))) 1,
      Assign [Name ''x''] (Attribute (Name ''a'') ''b'') 2]"

definition example_reassigned :: node where
  "example_reassigned = Module
     [AnnAssign (Name ''x'') (Name ''int'') (Some (Constant (CInt 1))) 1,
      Assign [Name ''x''] (Constant (CStr ''s'')) 2]"


section \<open>The signature pass\<close>

text \<open>Whether a node is a definition of a function named \<open>f\<close>.\<close>

definition defines_function :: "string \<Rightarrow> node \<Rightarrow> bool" where
  "defines_function f n =
     (case n of FunctionDef name args body decorator_list returns lineno \<Rightarrow> name = f
      | _ \<Rightarrow> False)"

text \<open>The engine at the moment the signature pass reaches a function definition: the seed
  pass is done and the nodes \<open>pre\<close> of the walk have been processed.\<close>

definition state_before_function ::
  "builtins \<Rightarrow> inferrer \<Rightarrow> node \<Rightarrow> node list \<Rightarrow> inferrer" where
  "state_before_function py st tree pre =
     fold (infer_function_signatures_node py) pre
       (collect_basic_types py tree
          (st\<lparr>type_map := [], function_signatures := [], variable_types := []\<rparr>))"

text \<open>Whether the signature pass, run over the nodes \<open>ns\<close> from the state \<open>s\<close>, infers
  nothing for the definitions of \<open>f\<close>: at each definition of \<open>f\<close>, in the state the pass
  has when it reaches it, \<^verbatim>\<open>_infer_function_signature\<close> returns \<^verbatim>\<open>None\<close>.\<close>

fun infers_nothing :: "builtins \<Rightarrow> string \<Rightarrow> node list \<Rightarrow> inferrer \<Rightarrow> bool" where
  "infers_nothing py f [] s = True"
| "infers_nothing py f (n # ns) s =
     ((defines_function f n \<longrightarrow> infer_function_signature py s n = None)
      \<and> infers_nothing py f ns (infer_function_signatures_node py n s))"

text \<open>Whether a node is a definition of \<open>f\<close> whose return annotation the seed pass
  records: the annotation is present and its type name is not empty.\<close>

definition annotates_function :: "builtins \<Rightarrow> string \<Rightarrow> node \<Rightarrow> bool" where
  "annotates_function py f n =
     (case n of
        FunctionDef name args body decorator_list returns lineno \<Rightarrow>
          name = f \<and> truthy (TypeInferrer_get_type_name py returns)
      | _ \<Rightarrow> False)"

text \<open>The engine after the seed pass.\<close>

definition seed_state :: "builtins \<Rightarrow> inferrer \<Rightarrow> node \<Rightarrow> inferrer" where
  "seed_state py st tree =
     collect_basic_types py tree
       (st\<lparr>type_map := [], function_signatures := [], variable_types := []\<rparr>)"


text \<open>\<^verbatim>\<open>def f(x) -> int: return "s"\<close>.\<close>

definition example_annotated_str :: node where
  "example_annotated_str = Module
     [FunctionDef ''f'' (Arguments [] [Arg ''x'' None] None [] [] None [])
        [Return (Some (Constant (CStr ''s'')))] [] (Some (Name ''int'')) 1]"

text \<open>\<^verbatim>\<open>def f() -> int: return y\<close>.\<close>

definition example_annotated_return_name :: node where
  "example_annotated_return_name = Module
     [FunctionDef ''f'' (Arguments [] [] None [] [] None []) [Return (Some (Name ''y''))] []
        (Some (Name ''int'')) 1]"


declare visit.simps [simp del]

declare str_nat.simps [simp del]

section \<open>Properties\<close>

subsection \<open>Parse failure\<close>

text \<open>
  C1. When the file does not parse (a syntax error, or any other failure of reading or
  parsing), \<open>check_file\<close> returns exactly 1. The failure is reported exactly once: \<open>parse_file\<close>
  appends one line to the error stream, and that line names the file and carries the text
  of the failure, \<^verbatim>\<open>Syntax error in FILE: E\<close> for a syntax error and
  \<^verbatim>\<open>Error parsing FILE: E\<close> for any other failure. The lists of errors and warnings are
  empty, so no issue of any other kind is recorded; and nothing after the parse runs:
  nothing is sent to the reporter and the inference engine is left as it was.
\<close>

theorem C1_parse_failure:
  assumes "\<forall>tree. read_and_parse file_path \<noteq> Parsed tree"
  shows "fst (check_file py cfg read_and_parse ck file_path) = 1
    \<and> errors (snd (check_file py cfg read_and_parse ck file_path)) = []
    \<and> warnings (snd (check_file py cfg read_and_parse ck file_path)) = []
    \<and> (\<exists>m. stderr (snd (check_file py cfg read_and_parse ck file_path)) = stderr ck @ [m])
    \<and> (\<forall>e. read_and_parse file_path = Syntax_error e \<longrightarrow>
          stderr (snd (check_file py cfg read_and_parse ck file_path))
            = stderr ck @ [''Syntax error in '' @ file_path @ '': '' @ e])
    \<and> (\<forall>e. read_and_parse file_path = Other_error e \<longrightarrow>
          stderr (snd (check_file py cfg read_and_parse ck file_path))
            = stderr ck @ [''Error parsing '' @ file_path @ '': '' @ e])
    \<and> reported (snd (check_file py cfg read_and_parse ck file_path)) = reported ck
    \<and> inferrer_of (snd (check_file py cfg read_and_parse ck file_path)) = inferrer_of ck"
  using assms
  by (cases "read_and_parse file_path") (simp_all add: check_file_def parse_file_def)

theorem C1_parse_failure_witness:
  "(\<forall>tree. (\<lambda>p. Syntax_error ''invalid syntax'') ''bad.py'' \<noteq> Parsed tree)
   \<and> fst (check_file sample_builtins default_config (\<lambda>p. Syntax_error ''invalid syntax'')
            new_checker ''bad.py'') = 1
   \<and> errors (snd (check_file sample_builtins default_config
            (\<lambda>p. Syntax_error ''invalid syntax'') new_checker ''bad.py'')) = []
   \<and> warnings (snd (check_file sample_builtins default_config
            (\<lambda>p. Syntax_error ''invalid syntax'') new_checker ''bad.py'')) = []
   \<and> stderr (snd (check_file sample_builtins default_config
            (\<lambda>p. Syntax_error ''invalid syntax'') new_checker ''bad.py''))
       = [''Syntax error in bad.py: invalid syntax'']
   \<and> reported (snd (check_file sample_builtins default_config
            (\<lambda>p. Syntax_error ''invalid syntax'') new_checker ''bad.py'')) = []"
  using C1_parse_failure [of "\<lambda>p. Syntax_error ''invalid syntax''" "''bad.py''"
      sample_builtins default_config new_checker]
  by (simp add: new_checker_def)

subsection \<open>The method table\<close>

lemma map_of_fold_update:
  "map_of (fold (\<lambda>(k, v) d. AList.update k v d) items d) = map_of d ++ map_of (rev items)"
proof (induction items arbitrary: d)
  case Nil
  show ?case by simp
next
  case (Cons kv items)
  obtain k v where kv: "kv = (k, v)" by (cases kv)
  show ?case
    by (simp add: kv Cons.IH update_conv' map_add_upd_left fun_eq_iff map_add_def
        split: option.splits)
qed

lemma map_of_dict_display: "map_of (dict_display items) = map_of (rev items)"
  by (simp add: dict_display_def map_of_fold_update)

lemma infer_type_from_method_last:
  "infer_type_from_method m = map_of (rev method_type_items) m"
  by (simp add: infer_type_from_method_def method_type_map_def map_of_dict_display)

text \<open>
  C2. The lookup gives \<open>List\<close> for \<open>append\<close>, \<open>Dict\<close> for \<open>update\<close>, \<open>str\<close> for \<open>strip\<close> and
  nothing for \<open>unknown_xyz\<close>, as for every name that is not a key of the table. For every
  name the result is the value of the last item with that key in the order the table is
  written; for the keys written twice, \<open>pop\<close>, \<open>remove\<close> and \<open>clear\<close>, that is \<open>Set\<close>.
\<close>

theorem C2_method_table:
  "infer_type_from_method ''append'' = Some ''List''
   \<and> infer_type_from_method ''update'' = Some ''Dict''
   \<and> infer_type_from_method ''strip'' = Some ''str''
   \<and> infer_type_from_method ''unknown_xyz'' = None
   \<and> (\<forall>m. m \<notin> fst ` set method_type_items \<longrightarrow> infer_type_from_method m = None)
   \<and> (\<forall>m. infer_type_from_method m = map_of (rev method_type_items) m)
   \<and> infer_type_from_method ''pop'' = Some ''Set''
   \<and> infer_type_from_method ''remove'' = Some ''Set''
   \<and> infer_type_from_method ''clear'' = Some ''Set''"
proof -
  have none: "\<forall>m. m \<notin> fst ` set method_type_items \<longrightarrow> infer_type_from_method m = None"
  proof (intro allI impI)
    fix m assume "m \<notin> fst ` set method_type_items"
    then have "m \<notin> fst ` set (rev method_type_items)" by simp
    then have "map_of (rev method_type_items) m = None" by (simp add: map_of_eq_None_iff)
    then show "infer_type_from_method m = None" by (simp only: infer_type_from_method_last)
  qed
  have a: "infer_type_from_method ''append'' = Some ''List''"
    by (simp add: infer_type_from_method_last method_type_items_def)
  have b: "infer_type_from_method ''update'' = Some ''Dict''"
    by (simp add: infer_type_from_method_last method_type_items_def)
  have c: "infer_type_from_method ''strip'' = Some ''str''"
    by (simp add: infer_type_from_method_last method_type_items_def)
  have d: "infer_type_from_method ''unknown_xyz'' = None"
    by (simp add: infer_type_from_method_last method_type_items_def)
  have e: "infer_type_from_method ''pop'' = Some ''Set''"
    by (simp add: infer_type_from_method_last method_type_items_def)
  have f: "infer_type_from_method ''remove'' = Some ''Set''"
    by (simp add: infer_type_from_method_last method_type_items_def)
  have g: "infer_type_from_method ''clear'' = Some ''Set''"
    by (simp add: infer_type_from_method_last method_type_items_def)
  from a b c d e f g none infer_type_from_method_last show ?thesis by blast
qed

theorem C2_method_table_witness:
  "''frobnicate'' \<notin> fst ` set method_type_items \<and> infer_type_from_method ''frobnicate'' = None"
proof -
  have h: "''frobnicate'' \<notin> fst ` set method_type_items"
    by (simp add: method_type_items_def)
  from C2_method_table
  have "\<forall>m. m \<notin> fst ` set method_type_items \<longrightarrow> infer_type_from_method m = None"
    by blast
  with h show ?thesis by blast
qed

subsection \<open>The binary-operation rule\<close>

text \<open>
  C6, as claimed, fails: for \<open>7 % 2.0\<close> both operand types are numeric and one is \<open>float\<close>,
  so the rule as worded gives \<open>float\<close>, and the code gives \<open>int\<close>, the type of the left
  operand, because \<open>%\<close> is not one of the four operators it tests for.
\<close>

theorem C6_binop_counterexample:
  "infer_expression_type empty_inferrer
      (BinOp (Constant (CInt 7)) Mod (Constant (CFloat (PyFloat 1 1)))) = Some ''int''
   \<and> claimed_binop_type Mod (infer_expression_type empty_inferrer (Constant (CInt 7)))
        (infer_expression_type empty_inferrer (Constant (CFloat (PyFloat 1 1)))) = Some ''float''"
  by (simp add: claimed_binop_type_def)

text \<open>
  C6, amended. Under the operators \<open>+\<close>, \<open>-\<close>, \<open>*\<close> and \<open>/\<close> the rule yields \<open>str\<close> when both
  operand types are \<open>str\<close>, and when both are numeric (\<open>int\<close> or \<open>float\<close>) it yields \<open>float\<close>
  if either is \<open>float\<close> and \<open>int\<close> otherwise; in every other combination, and under every
  other operator even with two numeric operands, it yields the left operand's inferred
  type.
\<close>

theorem C6_binop_rule:
  "infer_expression_type st (BinOp left op right) =
     (let left_type = infer_expression_type st left;
          right_type = infer_expression_type st right
      in if op \<in> {Add, Sub, Mult, Div} \<and> left_type = Some ''str'' \<and> right_type = Some ''str''
         then Some ''str''
         else if op \<in> {Add, Sub, Mult, Div}
                 \<and> left_type \<in> {Some ''int'', Some ''float''}
                 \<and> right_type \<in> {Some ''int'', Some ''float''}
         then (if left_type = Some ''float'' \<or> right_type = Some ''float'' then Some ''float''
               else Some ''int'')
         else left_type)"
  by (auto simp: Let_def)

theorem C6_binop_rule_witness:
  "infer_expression_type empty_inferrer
      (BinOp (Constant (CInt 1)) Add (Constant (CFloat (PyFloat 1 1)))) = Some ''float''
   \<and> infer_expression_type empty_inferrer
      (BinOp (Constant (CInt 1)) FloorDiv (Constant (CFloat (PyFloat 1 1)))) = Some ''int''
   \<and> infer_expression_type empty_inferrer
      (BinOp (Constant (CStr ''a'')) Add (Constant (CStr ''b''))) = Some ''str''"
  using C6_binop_rule [of empty_inferrer "Constant (CInt 1)" Add "Constant (CFloat (PyFloat 1 1))"]
    C6_binop_rule [of empty_inferrer "Constant (CInt 1)" FloorDiv "Constant (CFloat (PyFloat 1 1))"]
    C6_binop_rule [of empty_inferrer "Constant (CStr ''a'')" Add "Constant (CStr ''b'')"]
  by simp

subsection \<open>Type-name reconstruction\<close>

lemma get_type_name_same:
  "ASTAnalyzer_get_type_name py n = TypeInferrer_get_type_name py n"
  by (induction py n rule: ASTAnalyzer_get_type_name.induct) (simp_all add: Let_def)

lemma get_type_name_Some: "\<exists>s. TypeInferrer_get_type_name py (Some n) = Some s"
  by (cases n) (simp_all add: Let_def)

lemma get_type_name_fallback:
  assumes "\<forall>x. n \<noteq> Name x" "\<forall>v a. n \<noteq> Attribute v a" "\<forall>v s. n \<noteq> Subscript v s"
    "\<forall>c. n \<noteq> Constant c"
  shows "TypeInferrer_get_type_name py (Some n) = Some (str_node py n)"
  using assms by (cases n) simp_all

text \<open>
  C9. The extractor's and the inference engine's reconstruction give the same result on
  every node (and on an absent node): an identifier gives itself, an attribute access
  \<open>base.attr\<close> and a subscript \<open>base[slice]\<close> with the parts reconstructed by the same rule,
  a literal the \<open>str\<close> of its value, and any other node (a binary operation, a list, a
  call, and every node that is none of the four shapes) the \<open>str\<close> of the node.
\<close>

theorem C9_type_name_shared:
  "ASTAnalyzer_get_type_name py n = TypeInferrer_get_type_name py n
   \<and> TypeInferrer_get_type_name py None = None
   \<and> TypeInferrer_get_type_name py (Some (Name ident)) = Some ident
   \<and> TypeInferrer_get_type_name py (Some (Attribute val attr)) =
       Some (the (TypeInferrer_get_type_name py (Some val)) @ ''.'' @ attr)
   \<and> TypeInferrer_get_type_name py (Some (Subscript val slice)) =
       Some (the (TypeInferrer_get_type_name py (Some val)) @ ''[''
             @ the (TypeInferrer_get_type_name py (Some slice)) @ '']'')
   \<and> TypeInferrer_get_type_name py (Some (Constant v)) = Some (str_value py v)
   \<and> TypeInferrer_get_type_name py (Some (BinOp l op r)) = Some (str_node py (BinOp l op r))
   \<and> TypeInferrer_get_type_name py (Some (ListE elts)) = Some (str_node py (ListE elts))
   \<and> TypeInferrer_get_type_name py (Some (Call f args kws ln)) =
       Some (str_node py (Call f args kws ln))
   \<and> ((\<forall>x. other \<noteq> Name x) \<and> (\<forall>v a. other \<noteq> Attribute v a)
        \<and> (\<forall>v s. other \<noteq> Subscript v s) \<and> (\<forall>c. other \<noteq> Constant c)
       \<longrightarrow> TypeInferrer_get_type_name py (Some other) = Some (str_node py other))"
proof -
  obtain b where b: "TypeInferrer_get_type_name py (Some val) = Some b"
    using get_type_name_Some by blast
  obtain c where c: "TypeInferrer_get_type_name py (Some slice) = Some c"
    using get_type_name_Some by blast
  have fb: "(\<forall>x. other \<noteq> Name x) \<and> (\<forall>v a. other \<noteq> Attribute v a)
        \<and> (\<forall>v s. other \<noteq> Subscript v s) \<and> (\<forall>c. other \<noteq> Constant c)
       \<longrightarrow> TypeInferrer_get_type_name py (Some other) = Some (str_node py other)"
    using get_type_name_fallback by blast
  have shapes: "ASTAnalyzer_get_type_name py n = TypeInferrer_get_type_name py n
   \<and> TypeInferrer_get_type_name py None = None
   \<and> TypeInferrer_get_type_name py (Some (Name ident)) = Some ident
   \<and> TypeInferrer_get_type_name py (Some (Attribute val attr)) =
       Some (the (TypeInferrer_get_type_name py (Some val)) @ ''.'' @ attr)
   \<and> TypeInferrer_get_type_name py (Some (Subscript val slice)) =
       Some (the (TypeInferrer_get_type_name py (Some val)) @ ''[''
             @ the (TypeInferrer_get_type_name py (Some slice)) @ '']'')
   \<and> TypeInferrer_get_type_name py (Some (Constant v)) = Some (str_value py v)
   \<and> TypeInferrer_get_type_name py (Some (BinOp l op r)) = Some (str_node py (BinOp l op r))
   \<and> TypeInferrer_get_type_name py (Some (ListE elts)) = Some (str_node py (ListE elts))
   \<and> TypeInferrer_get_type_name py (Some (Call f args kws ln)) =
       Some (str_node py (Call f args kws ln))"
    by (simp add: get_type_name_same b c)
  from shapes fb show ?thesis by (elim conjE) (intro conjI)
qed

theorem C9_type_name_shared_witness:
  "ASTAnalyzer_get_type_name sample_builtins
      (Some (Subscript (Attribute (Name ''typing'') ''List'') (Name ''int''))) =
     Some ''typing.List[int]''
   \<and> TypeInferrer_get_type_name sample_builtins
      (Some (Subscript (Attribute (Name ''typing'') ''List'') (Name ''int''))) =
     Some ''typing.List[int]''"
  using C9_type_name_shared [of sample_builtins
      "Some (Subscript (Attribute (Name ''typing'') ''List'') (Name ''int''))"]
  by (simp add: Let_def)


subsection \<open>Literal assignments\<close>

lemma extractor_literal:
  "map as_value_type (get_variable_assignments py (Module [Assign [Name ''x''] (Constant v) 1]))
     = [infer_value_type py (Constant v)]"
  by (simp add: get_variable_assignments_def get_variable_assignments_node_def walk_def)

lemma engine_literal:
  "map_of (variable_types (infer_types py st (Module [Assign [Name ''x''] (Constant v) 1]))) ''x''
     = Some (get_constant_type v)"
  by (cases v) (simp_all add: infer_types_def collect_basic_types_def infer_function_signatures_def
      infer_variable_types_def walk_def collect_basic_types_node_def
      infer_function_signatures_node_def infer_variable_types_node_def
      infer_variable_types_target_def Let_def)

text \<open>
  C3 holds for the inference engine and fails for the extractor at \<open>x = True\<close>: the
  extractor's \<open>infer_value_type\<close> tests \<open>isinstance(value, int)\<close> before
  \<open>isinstance(value, bool)\<close>, and a \<open>bool\<close> is an \<open>int\<close>, so its \<open>value_type\<close> for \<open>True\<close> is
  \<open>int\<close>, where the inference engine stores \<open>bool\<close>. (For \<open>42\<close>, \<open>"s"\<close>, \<open>3.14\<close> and \<open>None\<close> the
  two agree with the claim: \<open>extractor_other_literals\<close>, \<open>engine_literal\<close>.)
\<close>

theorem C3_bool_literal:
  "map as_value_type (get_variable_assignments py
       (Module [Assign [Name ''x''] (Constant (CBool True)) 1])) = [Some ''int'']
   \<and> map_of (variable_types (infer_types py st
       (Module [Assign [Name ''x''] (Constant (CBool True)) 1]))) ''x'' = Some ''bool''"
  by (simp add: extractor_literal engine_literal infer_value_type_def)

lemma extractor_other_literals:
  "v \<in> {CInt 42, CStr ''s'', CFloat f, CNone} \<Longrightarrow>
   map as_value_type (get_variable_assignments py (Module [Assign [Name ''x''] (Constant v) 1]))
     = [Some (get_constant_type v)]"
  by (auto simp: extractor_literal infer_value_type_def)


subsection \<open>Return types\<close>

lemma length_remdups_one:
  "length (remdups xs) = 1 \<longleftrightarrow> xs \<noteq> [] \<and> (\<forall>t\<in>set xs. t = hd xs)"
proof
  assume "length (remdups xs) = 1"
  then have "card (set xs) = 1" by (simp add: length_remdups_card_conv)
  then obtain x where x: "set xs = {x}" by (auto simp: card_1_singleton_iff)
  then have "xs \<noteq> []" by auto
  moreover from x this have "hd xs = x" by (metis hd_in_set singletonD)
  ultimately show "xs \<noteq> [] \<and> (\<forall>t\<in>set xs. t = hd xs)" using x by auto
next
  assume a: "xs \<noteq> [] \<and> (\<forall>t\<in>set xs. t = hd xs)"
  then have "set xs = {hd xs}" by (auto simp: hd_in_set)
  then have "card (set xs) = 1" by simp
  then show "length (remdups xs) = 1" by (simp add: length_remdups_card_conv)
qed

lemma signature_returns_none:
  "infer_return_type py st func = None \<Longrightarrow> infer_function_signature py st func = Some sg
     \<Longrightarrow> sig_returns sg = None"
  by (auto simp: infer_function_signature_def Let_def empty_signature_def split: if_splits)

lemma return_types_nonempty: "t \<in> set (collect_return_types st func) \<Longrightarrow> t \<noteq> []"
proof -
  assume "t \<in> set (collect_return_types st func)"
  then obtain n where n: "t \<in> set (return_types_node st n)"
    by (auto simp: collect_return_types_def)
  show "t \<noteq> []"
  proof (cases n)
    case (Return v)
    show ?thesis
    proof (cases v)
      case None
      with n Return show ?thesis by (simp add: return_types_node_def)
    next
      case (Some e)
      show ?thesis
      proof (cases "infer_expression_type st e")
        case None
        with n Return Some show ?thesis by (simp add: return_types_node_def)
      next
        case (Some ty)
        with n Return \<open>v = Some e\<close> show ?thesis
          by (cases "ty = []") (simp_all add: return_types_node_def)
      qed
    qed
  qed (use n in \<open>simp_all add: return_types_node_def\<close>)
qed

lemma infer_return_type_nonempty:
  assumes "infer_return_type py st func = Some t"
  shows "t \<noteq> []"
proof (cases "collect_return_types st func = []")
  case True
  with assms show ?thesis by (simp add: infer_return_type_def)
next
  case False
  show ?thesis
  proof (cases "length (remdups (collect_return_types st func)) = 1")
    case True
    with False assms have "t = hd (collect_return_types st func)"
      by (simp add: infer_return_type_def)
    with False have "t \<in> set (collect_return_types st func)" by simp
    then show ?thesis by (rule return_types_nonempty)
  next
    case n1: False
    with False assms show ?thesis by (auto simp: infer_return_type_def)
  qed
qed

lemma signature_records_return_type:
  assumes "infer_return_type py st func = Some t"
  shows "\<exists>sg. infer_function_signature py st func = Some sg \<and> sig_returns sg = Some t"
proof -
  from assms have "t \<noteq> []" by (rule infer_return_type_nonempty)
  with assms show ?thesis
    by (simp add: infer_function_signature_def Let_def empty_signature_def)
qed

lemma pass_stores_return_type:
  assumes "infer_return_type py st (FunctionDef name a b d r ln) = Some t"
  shows "\<exists>sg. map_of (function_signatures
                  (infer_function_signatures_node py (FunctionDef name a b d r ln) st)) name
               = Some sg \<and> sig_returns sg = Some t"
proof -
  from signature_records_return_type [OF assms] obtain sg where
    "infer_function_signature py st (FunctionDef name a b d r ln) = Some sg"
    "sig_returns sg = Some t" by (elim exE conjE)
  then show ?thesis
    by (simp add: infer_function_signatures_node_def update_conv')
qed


text \<open>
  C7. Let the collected types be the inferable (non-empty) types of the expressions of the
  \<open>return\<close> statements in the walk of the function. If there is at least one and all are
  the same, that type is the inferred return type. If two of them differ, the result is
  \<open>Union[...]\<close> over the members in the order in which the set of the types is iterated:
  the members are distinct and are exactly the collected types, in an order the program
  does not fix. If there is none, no return type is inferred, and a signature inferred
  for the function has no \<open>returns\<close> entry. An inferred return type is what the inferred
  signature records under \<open>returns\<close>, and what the signature pass stores for the function.
\<close>

theorem C7_return_type:
  assumes "distinct (set_iter py (collect_return_types st func))"
    and "set (set_iter py (collect_return_types st func)) = set (collect_return_types st func)"
  shows "set (collect_return_types st func) =
           {t. \<exists>e. Return (Some e) \<in> set (walk func) \<and> infer_expression_type st e = Some t
                    \<and> t \<noteq> []}
    \<and> (collect_return_types st func \<noteq> []
         \<and> (\<forall>t\<in>set (collect_return_types st func). t = hd (collect_return_types st func))
        \<longrightarrow> infer_return_type py st func = Some (hd (collect_return_types st func)))
    \<and> ((\<exists>a\<in>set (collect_return_types st func). \<exists>b\<in>set (collect_return_types st func). a \<noteq> b)
        \<longrightarrow> (\<exists>members. infer_return_type py st func
                          = Some (''Union['' @ join '', '' members @ '']'')
                   \<and> distinct members
                   \<and> set members = set (collect_return_types st func)))
    \<and> (collect_return_types st func = []
        \<longrightarrow> infer_return_type py st func = None
            \<and> (\<forall>sg. infer_function_signature py st func = Some sg \<longrightarrow> sig_returns sg = None))
    \<and> (\<forall>t. infer_return_type py st func = Some t
        \<longrightarrow> (\<exists>sg. infer_function_signature py st func = Some sg \<and> sig_returns sg = Some t))
    \<and> (\<forall>name a b d r ln t.
          func = FunctionDef name a b d r ln \<and> infer_return_type py st func = Some t
        \<longrightarrow> (\<exists>sg. map_of (function_signatures (infer_function_signatures_node py func st))
                    name = Some sg
                 \<and> sig_returns sg = Some t))"
proof -
  let ?rts = "collect_return_types st func"
  have chr: "set ?rts = {t. \<exists>e. Return (Some e) \<in> set (walk func)
                  \<and> infer_expression_type st e = Some t \<and> t \<noteq> []}"
  proof (rule set_eqI, rule iffI)
    fix t assume "t \<in> set ?rts"
    then obtain n where n: "n \<in> set (walk func)" "t \<in> set (return_types_node st n)"
      by (auto simp: collect_return_types_def)
    then show "t \<in> {t. \<exists>e. Return (Some e) \<in> set (walk func)
                  \<and> infer_expression_type st e = Some t \<and> t \<noteq> []}"
      by (cases "infer_expression_type st (the (case n of Return v \<Rightarrow> v | _ \<Rightarrow> None))")
         (auto simp: return_types_node_def Let_def split: node.splits option.splits if_splits)
  next
    fix t assume "t \<in> {t. \<exists>e. Return (Some e) \<in> set (walk func)
                  \<and> infer_expression_type st e = Some t \<and> t \<noteq> []}"
    then obtain e where e: "Return (Some e) \<in> set (walk func)"
      "infer_expression_type st e = Some t" "t \<noteq> []" by blast
    then have "t \<in> set (return_types_node st (Return (Some e)))"
      by (simp add: return_types_node_def)
    with e(1) show "t \<in> set ?rts" by (auto simp: collect_return_types_def)
  qed
  have same: "?rts \<noteq> [] \<and> (\<forall>t\<in>set ?rts. t = hd ?rts)
        \<longrightarrow> infer_return_type py st func = Some (hd ?rts)"
    using length_remdups_one [of ?rts] by (auto simp: infer_return_type_def Let_def)
  have diff: "(\<exists>a\<in>set ?rts. \<exists>b\<in>set ?rts. a \<noteq> b)
        \<longrightarrow> (\<exists>members. infer_return_type py st func
                          = Some (''Union['' @ join '', '' members @ '']'')
                   \<and> distinct members \<and> set members = set ?rts)"
  proof
    assume d: "\<exists>a\<in>set ?rts. \<exists>b\<in>set ?rts. a \<noteq> b"
    then have ne: "?rts \<noteq> []" by auto
    from d have "\<not> (\<forall>t\<in>set ?rts. t = hd ?rts)" by metis
    then have "length (remdups ?rts) \<noteq> 1" using length_remdups_one [of ?rts] by blast
    with ne have "infer_return_type py st func
        = Some (''Union['' @ join '', '' (set_iter py ?rts) @ '']'')"
      by (simp add: infer_return_type_def Let_def)
    with assms show "\<exists>members. infer_return_type py st func
                          = Some (''Union['' @ join '', '' members @ '']'')
                   \<and> distinct members \<and> set members = set ?rts" by blast
  qed
  have none: "?rts = [] \<longrightarrow> infer_return_type py st func = None
            \<and> (\<forall>sg. infer_function_signature py st func = Some sg \<longrightarrow> sig_returns sg = None)"
  proof
    assume "?rts = []"
    then have n: "infer_return_type py st func = None" by (simp add: infer_return_type_def)
    with signature_returns_none [OF n] show "infer_return_type py st func = None
            \<and> (\<forall>sg. infer_function_signature py st func = Some sg \<longrightarrow> sig_returns sg = None)"
      by blast
  qed
  have rec: "\<forall>t. infer_return_type py st func = Some t
        \<longrightarrow> (\<exists>sg. infer_function_signature py st func = Some sg \<and> sig_returns sg = Some t)"
    using signature_records_return_type by blast
  have sto: "\<forall>name a b d r ln t.
          func = FunctionDef name a b d r ln \<and> infer_return_type py st func = Some t
        \<longrightarrow> (\<exists>sg. map_of (function_signatures (infer_function_signatures_node py func st))
                    name = Some sg
                 \<and> sig_returns sg = Some t)"
    using pass_stores_return_type by blast
  from chr same diff none rec sto show ?thesis by (intro conjI)
qed

lemma walk_example_two_returns:
  "walk example_two_returns =
     [example_two_returns, Arguments [] [Arg ''c'' None] None [] [] None [],
      Other ''If'' [Name ''c'', Return (Some (Constant (CStr ''a'')))],
      Return (Some (Constant (CInt 1))), Arg ''c'' None, Name ''c'',
      Return (Some (Constant (CStr ''a''))), Constant (CInt 1), Constant (CStr ''a'')]"
  by (simp add: example_two_returns_def walk_def)


lemma return_types_node_root:
  "return_types_node st example_two_returns = []"
  by (simp add: return_types_node_def example_two_returns_def)

lemma example_two_returns_types:
  "collect_return_types empty_inferrer example_two_returns = [''int'', ''str'']"
  by (simp add: collect_return_types_def walk_example_two_returns return_types_node_root)
     (simp add: return_types_node_def)



lemma example_two_returns_union:
  "infer_return_type sample_builtins empty_inferrer example_two_returns
     = Some ''Union[int, str]''"
  by (simp add: infer_return_type_def example_two_returns_types sample_builtins_def)

theorem C7_return_type_witness:
  "distinct (set_iter sample_builtins (collect_return_types empty_inferrer example_two_returns))
   \<and> set (set_iter sample_builtins (collect_return_types empty_inferrer example_two_returns))
       = set (collect_return_types empty_inferrer example_two_returns)
   \<and> collect_return_types empty_inferrer example_two_returns = [''int'', ''str'']
   \<and> infer_return_type sample_builtins empty_inferrer example_two_returns
       = Some ''Union[int, str]''
   \<and> (\<exists>members. infer_return_type sample_builtins empty_inferrer example_two_returns
                     = Some (''Union['' @ join '', '' members @ '']'')
          \<and> distinct members
          \<and> set members = set (collect_return_types empty_inferrer example_two_returns))"
proof -
  let ?rts = "collect_return_types empty_inferrer example_two_returns"
  have d: "distinct (set_iter sample_builtins ?rts)"
    by (simp add: sample_builtins_def)
  have s: "set (set_iter sample_builtins ?rts) = set ?rts"
    by (simp add: sample_builtins_def)
  have i1: "''int'' \<in> set ?rts" by (simp add: example_two_returns_types)
  have i2: "''str'' \<in> set ?rts" by (simp add: example_two_returns_types)
  have i3: "''int'' \<noteq> ''str''" by simp
  from i2 i3 have "\<exists>b\<in>set ?rts. ''int'' \<noteq> b" by (rule bexI [rotated])
  with i1 have dv: "\<exists>a\<in>set ?rts. \<exists>b\<in>set ?rts. a \<noteq> b" by (rule bexI [rotated])
  have ex: "\<exists>members. infer_return_type sample_builtins empty_inferrer example_two_returns
                     = Some (''Union['' @ join '', '' members @ '']'')
          \<and> distinct members \<and> set members = set ?rts"
    by (rule C7_return_type [OF d s, THEN conjunct2, THEN conjunct2, THEN conjunct1,
          THEN mp, OF dv])
  from d s example_two_returns_types example_two_returns_union ex show ?thesis
    by (intro conjI)
qed

subsection \<open>Argument counts at call sites\<close>

lemma fold_preserves:
  "(\<And>x s. x \<in> set xs \<Longrightarrow> g (f x s) = g s) \<Longrightarrow> g (fold f xs s) = g s"
  by (induction xs arbitrary: s) auto

lemma check_type_mismatches_node_eq:
  "check_type_mismatches_node cfg file_path n ck =
     ck\<lparr>errors := errors ck @ mismatch_issue cfg (inferrer_of ck) file_path n\<rparr>"
  by (simp add: check_type_mismatches_node_def check_function_call_def check_assignment_def
      mismatch_issue_def get_inferred_function_signature_def Let_def empty_signature_def
      split: node.splits option.splits)

lemma check_type_mismatches_fold:
  "fold (check_type_mismatches_node cfg file_path) ns ck =
     ck\<lparr>errors := errors ck @ concat (map (mismatch_issue cfg (inferrer_of ck) file_path) ns)\<rparr>"
proof (induction ns arbitrary: ck)
  case Nil
  show ?case by simp
next
  case (Cons n ns)
  have "fold (check_type_mismatches_node cfg file_path) (n # ns) ck =
        fold (check_type_mismatches_node cfg file_path) ns
          (check_type_mismatches_node cfg file_path n ck)" by simp
  also have "\<dots> = (check_type_mismatches_node cfg file_path n ck)\<lparr>errors :=
        errors (check_type_mismatches_node cfg file_path n ck) @
        concat (map (mismatch_issue cfg
          (inferrer_of (check_type_mismatches_node cfg file_path n ck)) file_path) ns)\<rparr>"
    by (rule Cons.IH)
  also have "\<dots> = ck\<lparr>errors := errors ck @
        concat (map (mismatch_issue cfg (inferrer_of ck) file_path) (n # ns))\<rparr>"
    by (simp add: check_type_mismatches_node_eq)
  finally show ?case .
qed

lemma mismatch_issue_all: "list_all is_mismatch (mismatch_issue cfg st file_path n)"
  by (simp add: mismatch_issue_def is_mismatch_def split: node.split option.split)

lemma fold_const: "fold (\<lambda>a s. s) xs s = s"
  by (induction xs) simp_all

lemma check_variable_assignments_id: "check_variable_assignments py cfg file_path tree ck = ck"
  by (simp add: check_variable_assignments_def fold_const)

lemma report_info_fields:
  "errors (report_info m ck) = errors ck" "warnings (report_info m ck) = warnings ck"
  "inferrer_of (report_info m ck) = inferrer_of ck"
  by (simp_all add: report_info_def)

lemma fold_report_info_fields:
  "errors (fold (\<lambda>x. report_info (h x)) xs ck) = errors ck"
  "warnings (fold (\<lambda>x. report_info (h x)) xs ck) = warnings ck"
  "inferrer_of (fold (\<lambda>x. report_info (h x)) xs ck) = inferrer_of ck"
  by (induction xs arbitrary: ck) (simp_all add: report_info_fields)

lemma report_inferred_types_fields:
  "errors (report_inferred_types file_path it ck) = errors ck"
  "warnings (report_inferred_types file_path it ck) = warnings ck"
  "inferrer_of (report_inferred_types file_path it ck) = inferrer_of ck"
  by (simp_all add: report_inferred_types_def Let_def case_prod_unfold
      fold_report_info_fields report_info_fields)

lemma auto_fix_file_fields:
  "errors (auto_fix_file cfg file_path tree ck) = errors ck"
  "warnings (auto_fix_file cfg file_path tree ck) = warnings ck"
  by (simp_all add: auto_fix_file_def report_info_fields)

lemma report_issues_fields:
  "errors (report_issues file_path ck) = errors ck"
  "warnings (report_issues file_path ck) = warnings ck"
  by (simp_all add: report_issues_def)

text \<open>The signature check and the replay of the missing-annotation sites add no
  \<open>argument_count_mismatch\<close> and leave the inference engine alone.\<close>


lemma check_function_signatures_arg_keeps:
  "errors (check_function_signatures_arg cfg file_path sg a ck) = errors ck"
  "inferrer_of (check_function_signatures_arg cfg file_path sg a ck) = inferrer_of ck"
  by (simp_all add: check_function_signatures_arg_def)

lemma fold_check_function_signatures_arg_keeps:
  "errors (fold (check_function_signatures_arg cfg file_path sg) as ck) = errors ck"
  "inferrer_of (fold (check_function_signatures_arg cfg file_path sg) as ck) = inferrer_of ck"
  by (induction as arbitrary: ck) (simp_all add: check_function_signatures_arg_keeps)

lemma check_function_signatures_sig_keeps:
  "filter is_mismatch (errors (check_function_signatures_sig cfg file_path sg ck))
     = filter is_mismatch (errors ck)"
  "inferrer_of (check_function_signatures_sig cfg file_path sg ck) = inferrer_of ck"
  by (simp_all add: check_function_signatures_sig_def Let_def is_mismatch_def
      fold_check_function_signatures_arg_keeps)

lemma fold_check_function_signatures_sig_keeps:
  "filter is_mismatch (errors (fold (check_function_signatures_sig cfg file_path) sgs ck))
     = filter is_mismatch (errors ck)"
  "inferrer_of (fold (check_function_signatures_sig cfg file_path) sgs ck) = inferrer_of ck"
  by (induction sgs arbitrary: ck) (simp_all add: check_function_signatures_sig_keeps)

lemma check_function_signatures_keeps:
  "filter is_mismatch (errors (check_function_signatures py cfg file_path tree ck))
     = filter is_mismatch (errors ck)"
  "inferrer_of (check_function_signatures py cfg file_path tree ck) = inferrer_of ck"
  by (simp_all add: check_function_signatures_def fold_check_function_signatures_sig_keeps)

lemma check_missing_annotations_item_keeps:
  "filter is_mismatch (errors (check_missing_annotations_item cfg file_path it ck))
     = filter is_mismatch (errors ck)"
  "inferrer_of (check_missing_annotations_item cfg file_path it ck) = inferrer_of ck"
  by (simp_all add: check_missing_annotations_item_def is_mismatch_def split: prod.splits)

lemma fold_check_missing_annotations_item_keeps:
  "filter is_mismatch (errors (fold (check_missing_annotations_item cfg file_path) its ck))
     = filter is_mismatch (errors ck)"
  "inferrer_of (fold (check_missing_annotations_item cfg file_path) its ck) = inferrer_of ck"
  by (induction its arbitrary: ck) (simp_all add: check_missing_annotations_item_keeps)

lemma check_missing_annotations_keeps:
  "filter is_mismatch (errors (check_missing_annotations cfg file_path analysis ck))
     = filter is_mismatch (errors ck)"
  "inferrer_of (check_missing_annotations cfg file_path analysis ck) = inferrer_of ck"
  by (simp_all add: check_missing_annotations_def fold_check_missing_annotations_item_keeps)

lemma filter_mismatch_issues:
  "filter is_mismatch (concat (map (mismatch_issue cfg st file_path) ns))
     = concat (map (mismatch_issue cfg st file_path) ns)"
proof (induction ns)
  case Nil
  show ?case by simp
next
  case (Cons n ns)
  have "filter is_mismatch (mismatch_issue cfg st file_path n) = mismatch_issue cfg st file_path n"
    using mismatch_issue_all [of cfg st file_path n]
    by (simp only: filter_id_conv list_all_iff)
  with Cons show ?case by simp
qed

lemma check_file_mismatches:
  assumes "read_and_parse file_path = Parsed tree"
  shows "filter is_mismatch (errors (snd (check_file py cfg read_and_parse ck file_path)))
     = concat (map (mismatch_issue cfg (inferrer_after py cfg ck tree) file_path) (walk tree))"
  using assms
  by (simp add: check_file_def parse_file_def Let_def auto_fix_file_fields report_issues_fields
      check_type_mismatches_def check_type_mismatches_fold filter_mismatch_issues
      check_missing_annotations_keeps check_variable_assignments_id
      check_function_signatures_keeps report_inferred_types_fields inferrer_after_def)

lemma check_function_signatures_arg_warnings:
  "filter is_mismatch (warnings (check_function_signatures_arg cfg file_path sg a ck))
     = filter is_mismatch (warnings ck)"
  by (simp add: check_function_signatures_arg_def is_mismatch_def)

lemma fold_check_function_signatures_arg_warnings:
  "filter is_mismatch (warnings (fold (check_function_signatures_arg cfg file_path sg) as ck))
     = filter is_mismatch (warnings ck)"
  by (induction as arbitrary: ck) (simp_all add: check_function_signatures_arg_warnings)

lemma check_function_signatures_sig_warnings:
  "filter is_mismatch (warnings (check_function_signatures_sig cfg file_path sg ck))
     = filter is_mismatch (warnings ck)"
  by (simp add: check_function_signatures_sig_def Let_def
      fold_check_function_signatures_arg_warnings)

lemma fold_check_function_signatures_sig_warnings:
  "filter is_mismatch (warnings (fold (check_function_signatures_sig cfg file_path) sgs ck))
     = filter is_mismatch (warnings ck)"
  by (induction sgs arbitrary: ck) (simp_all add: check_function_signatures_sig_warnings)

lemma check_missing_annotations_item_warnings:
  "filter is_mismatch (warnings (check_missing_annotations_item cfg file_path it ck))
     = filter is_mismatch (warnings ck)"
  by (simp add: check_missing_annotations_item_def is_mismatch_def split: prod.splits)

lemma fold_check_missing_annotations_item_warnings:
  "filter is_mismatch (warnings (fold (check_missing_annotations_item cfg file_path) its ck))
     = filter is_mismatch (warnings ck)"
  by (induction its arbitrary: ck) (simp_all add: check_missing_annotations_item_warnings)

lemma check_file_mismatch_warnings:
  assumes "read_and_parse file_path = Parsed tree"
  shows "filter is_mismatch (warnings (snd (check_file py cfg read_and_parse ck file_path))) = []"
  using assms
  by (simp add: check_file_def parse_file_def Let_def auto_fix_file_fields report_issues_fields
      check_type_mismatches_def check_type_mismatches_fold
      check_missing_annotations_def fold_check_missing_annotations_item_warnings
      check_variable_assignments_id check_function_signatures_def
      fold_check_function_signatures_sig_warnings report_inferred_types_fields)

lemma mismatch_issue_iff:
  "mismatch_issue cfg st file_path n \<noteq> [] \<longleftrightarrow>
     (\<exists>func_name args kws lineno sg expected.
        n = Call (Name func_name) args kws lineno \<and> cfg_infer cfg
        \<and> map_of (function_signatures st) func_name = Some sg
        \<and> sig_args sg = Some expected \<and> length args \<noteq> length expected)"
  by (simp add: mismatch_issue_def split: node.split option.split)

text \<open>
  C8. When the file parses, the \<open>argument_count_mismatch\<close> errors of \<open>check_file\<close> are, in
  the order of the walk, exactly the errors of the calls in the tree for which inference
  is enabled, the callee is a bare name, the inference engine holds a signature for that
  name with an argument list, and the number of positional arguments differs from the
  length of that list; no warning has that kind. A call of a function whose signature is
  absent or has no argument list raises none.
\<close>

theorem C8_argument_count_mismatch:
  assumes "read_and_parse file_path = Parsed tree"
  shows "filter is_mismatch (errors (snd (check_file py cfg read_and_parse ck file_path)))
           = concat (map (mismatch_issue cfg (inferrer_after py cfg ck tree) file_path)
               (walk tree))
    \<and> filter is_mismatch (warnings (snd (check_file py cfg read_and_parse ck file_path))) = []
    \<and> (\<forall>st n. mismatch_issue cfg st file_path n \<noteq> [] \<longleftrightarrow>
          (\<exists>func_name args kws lineno sg expected.
             n = Call (Name func_name) args kws lineno \<and> cfg_infer cfg
             \<and> map_of (function_signatures st) func_name = Some sg
             \<and> sig_args sg = Some expected \<and> length args \<noteq> length expected))"
proof -
  have e: "filter is_mismatch (errors (snd (check_file py cfg read_and_parse ck file_path)))
           = concat (map (mismatch_issue cfg (inferrer_after py cfg ck tree) file_path)
               (walk tree))"
    using assms by (rule check_file_mismatches)
  have w: "filter is_mismatch (warnings (snd (check_file py cfg read_and_parse ck file_path)))
           = []"
    using assms by (rule check_file_mismatch_warnings)
  from e w mismatch_issue_iff show ?thesis by blast
qed

lemmas pass_defs = infer_types_def collect_basic_types_def infer_function_signatures_def
  infer_variable_types_def collect_basic_types_node_def infer_function_signatures_node_def
  infer_variable_types_node_def infer_variable_types_target_def infer_function_signature_def
  infer_argument_types_def infer_argument_types_node_def infer_return_type_def
  collect_return_types_def return_types_node_def arg_names_def func_args_args_def
  empty_signature_def walk_def Let_def

lemma infer_no_args:
  "infer_types sample_builtins empty_inferrer example_call_no_args = empty_inferrer"
  by (simp add: example_call_no_args_def pass_defs empty_inferrer_def)

lemma method_append: "infer_type_from_method ''append'' = Some ''List''"
  by (simp add: infer_type_from_method_def method_type_map_def dict_display_def
      method_type_items_def)

lemma infer_mismatch:
  "function_signatures (infer_types sample_builtins empty_inferrer example_call_mismatch)
     = [(''g'', \<lparr>sig_args = Some [(''a'', ''List'')], sig_returns = None\<rparr>)]"
  by (simp add: example_call_mismatch_def pass_defs empty_inferrer_def method_append)

lemma walk_example_call_no_args:
  "walk example_call_no_args =
     [example_call_no_args,
      FunctionDef ''f'' (Arguments [] [] None [] [] None []) [Other ''Pass'' []] [] None 1,
      Expr (Call (Name ''f'') [Constant (CInt 1), Constant (CInt 2)] [] 2),
      Arguments [] [] None [] [] None [], Other ''Pass'' [],
      Call (Name ''f'') [Constant (CInt 1), Constant (CInt 2)] [] 2,
      Name ''f'', Constant (CInt 1), Constant (CInt 2)]"
  by (simp add: example_call_no_args_def walk_def)

lemma walk_example_call_mismatch:
  "walk example_call_mismatch =
     [example_call_mismatch,
      FunctionDef ''g'' (Arguments [] [Arg ''a'' None] None [] [] None [])
        [Expr (Call (Attribute (Name ''a'') ''append'') [Constant (CInt 1)] [] 2)] [] None 1,
      Expr (Call (Name ''g'') [Constant (CInt 1), Constant (CInt 2)] [] 3),
      Arguments [] [Arg ''a'' None] None [] [] None [],
      Expr (Call (Attribute (Name ''a'') ''append'') [Constant (CInt 1)] [] 2),
      Call (Name ''g'') [Constant (CInt 1), Constant (CInt 2)] [] 3,
      Arg ''a'' None,
      Call (Attribute (Name ''a'') ''append'') [Constant (CInt 1)] [] 2,
      Name ''g'', Constant (CInt 1), Constant (CInt 2),
      Attribute (Name ''a'') ''append'', Constant (CInt 1), Name ''a'']"
  by (simp add: example_call_mismatch_def walk_def)

lemma str_nat_digits: "str_nat (Suc 0) = ''1''" "str_nat (Suc (Suc 0)) = ''2''"
  by code_simp+

lemma mismatch_issue_roots:
  "mismatch_issue cfg st file_path example_call_no_args = []"
  "mismatch_issue cfg st file_path example_call_mismatch = []"
  by (simp_all add: mismatch_issue_def example_call_no_args_def example_call_mismatch_def)

lemma infer_no_args_signatures:
  "function_signatures (infer_types sample_builtins empty_inferrer example_call_no_args) = []"
  by (simp add: infer_no_args) (simp add: empty_inferrer_def)

theorem C8_argument_count_mismatch_witness:
  "(\<lambda>p. Parsed example_call_no_args) ''m.py'' = Parsed example_call_no_args
   \<and> filter is_mismatch (errors (snd (check_file sample_builtins infer_config
        (\<lambda>p. Parsed example_call_no_args) new_checker ''m.py''))) = []
   \<and> map (\<lambda>i. (i_message i, i_line i))
        (filter is_mismatch (errors (snd (check_file sample_builtins infer_config
          (\<lambda>p. Parsed example_call_mismatch) new_checker ''m.py''))))
       = [(''Function '' @ quoted ''g'' @ '' expects 1 arguments, got 2'', 3)]"
proof -
  have a: "filter is_mismatch (errors (snd (check_file sample_builtins infer_config
        (\<lambda>p. Parsed example_call_no_args) new_checker ''m.py'')))
      = concat (map (mismatch_issue infer_config
          (inferrer_after sample_builtins infer_config new_checker example_call_no_args)
          ''m.py'') (walk example_call_no_args))"
    using C8_argument_count_mismatch [of "\<lambda>p. Parsed example_call_no_args" "''m.py''"
      example_call_no_args sample_builtins infer_config new_checker]
    by simp
  have b: "filter is_mismatch (errors (snd (check_file sample_builtins infer_config
        (\<lambda>p. Parsed example_call_mismatch) new_checker ''m.py'')))
      = concat (map (mismatch_issue infer_config
          (inferrer_after sample_builtins infer_config new_checker example_call_mismatch)
          ''m.py'') (walk example_call_mismatch))"
    using C8_argument_count_mismatch [of "\<lambda>p. Parsed example_call_mismatch" "''m.py''"
      example_call_mismatch sample_builtins infer_config new_checker]
    by simp
  have st: "\<And>t. inferrer_after sample_builtins infer_config new_checker t
      = infer_types sample_builtins empty_inferrer t"
    by (simp add: inferrer_after_def infer_config_def new_checker_def)
  have a': "concat (map (mismatch_issue infer_config
          (infer_types sample_builtins empty_inferrer example_call_no_args)
          ''m.py'') (walk example_call_no_args)) = []"
    by (simp add: walk_example_call_no_args mismatch_issue_roots)
       (simp add: mismatch_issue_def infer_no_args_signatures)
  have b': "concat (map (mismatch_issue infer_config
          (infer_types sample_builtins empty_inferrer example_call_mismatch)
          ''m.py'') (walk example_call_mismatch))
      = [\<lparr>i_type = ''argument_count_mismatch'',
          i_message = ''Function '' @ quoted ''g'' @ '' expects 1 arguments, got 2'',
          i_line = 3, i_file = ''m.py''\<rparr>]"
    by (simp add: walk_example_call_mismatch mismatch_issue_roots)
       (simp add: mismatch_issue_def infer_mismatch infer_config_def default_config_def
          str_nat_digits)
  show ?thesis by (simp add: a b st a' b')
qed


subsection \<open>Missing annotations outside strict mode\<close>

lemma fold_unchanged: "(\<And>x s. x \<in> set xs \<Longrightarrow> f x s = s) \<Longrightarrow> fold f xs s = s"
  by (induction xs arbitrary: s) auto

lemma visit_Import_alias_missing:
  "w_missing_annotations (visit_Import_alias a w) = w_missing_annotations w"
  by (simp add: visit_Import_alias_def split: node.split)

lemma visit_ImportFrom_alias_missing:
  "w_missing_annotations (visit_ImportFrom_alias m a w) = w_missing_annotations w"
  by (simp add: visit_ImportFrom_alias_def split: node.split)

lemma visit_Assign_target_missing:
  "w_missing_annotations (visit_Assign_target n t w) = w_missing_annotations w"
  by (simp add: visit_Assign_target_def split: node.split)

lemma visit_FunctionDef_arg_missing:
  "\<not> cfg_strict cfg \<Longrightarrow>
   w_missing_annotations (visit_FunctionDef_arg cfg name lineno a w) = w_missing_annotations w"
  by (simp add: visit_FunctionDef_arg_def split: node.split)

lemma visit_node_missing:
  assumes "\<not> cfg_strict cfg"
  shows "w_missing_annotations (visit_node cfg n w) = w_missing_annotations w"
proof (cases n)
  case (Import names)
  then show ?thesis
    by (simp add: visit_node_def fold_preserves visit_Import_alias_missing)
next
  case (ImportFrom m names)
  then show ?thesis
    by (simp add: visit_node_def fold_preserves visit_ImportFrom_alias_missing)
next
  case (FunctionDef name args body decs returns lineno)
  with assms show ?thesis
    by (simp add: visit_node_def Let_def fold_preserves visit_FunctionDef_arg_missing)
next
  case (Assign targets val lineno)
  then show ?thesis
    by (simp add: visit_node_def fold_preserves visit_Assign_target_missing)
next
  case (AnnAssign target annotation val lineno)
  then show ?thesis
    by (simp add: visit_node_def split: node.split)
qed (simp_all add: visit_node_def)

lemma visit_missing:
  "\<not> cfg_strict cfg \<Longrightarrow>
   w_missing_annotations (visit cfg n w) = w_missing_annotations w"
proof (induction cfg n w rule: visit.induct)
  case (1 cfg n w)
  have "w_missing_annotations (fold (visit cfg) (iter_child_nodes n) (visit_node cfg n w))
        = w_missing_annotations (visit_node cfg n w)"
    by (rule fold_preserves) (simp add: "1.IH" "1.prems")
  then show ?case
    by (simp add: visit.simps [of cfg n w] visit_node_missing "1.prems")
qed

lemma analyze_ast_missing:
  "\<not> cfg_strict cfg \<Longrightarrow> w_missing_annotations (analyze_ast cfg tree) = []"
  by (simp add: analyze_ast_def visit_missing empty_walker_def)

lemma check_function_signatures_nonstrict:
  assumes "\<not> cfg_strict cfg"
  shows "check_function_signatures py cfg file_path tree ck = ck"
proof -
  have a: "\<And>sg a s. check_function_signatures_arg cfg file_path sg a s = s"
    using assms by (simp add: check_function_signatures_arg_def)
  have b: "\<And>sg s. check_function_signatures_sig cfg file_path sg s = s"
    using assms by (simp add: check_function_signatures_sig_def Let_def fold_unchanged a)
  show ?thesis by (simp add: check_function_signatures_def fold_unchanged b)
qed

lemma check_missing_annotations_nil:
  "w_missing_annotations analysis = [] \<Longrightarrow>
   check_missing_annotations cfg file_path analysis ck = ck"
  by (simp add: check_missing_annotations_def)

lemma check_file_nonstrict:
  assumes "\<not> cfg_strict cfg" and "read_and_parse file_path = Parsed tree"
  shows "errors (snd (check_file py cfg read_and_parse ck file_path))
           = concat (map (mismatch_issue cfg (inferrer_after py cfg ck tree) file_path)
               (walk tree))"
    and "warnings (snd (check_file py cfg read_and_parse ck file_path)) = []"
  using assms
  by (simp_all add: check_file_def parse_file_def Let_def auto_fix_file_fields
      report_issues_fields check_type_mismatches_def check_type_mismatches_fold
      check_missing_annotations_nil analyze_ast_missing check_variable_assignments_id
      check_function_signatures_nonstrict report_inferred_types_fields inferrer_after_def)

lemma mismatch_not_missing:
  assumes "i \<in> set (concat (map (mismatch_issue cfg st file_path) ns))"
  shows "i_type i \<noteq> ''missing_annotation''"
proof -
  from assms obtain n where "i \<in> set (mismatch_issue cfg st file_path n)"
    by (auto simp only: set_concat set_map)
  moreover have "list_all is_mismatch (mismatch_issue cfg st file_path n)"
    by (rule mismatch_issue_all)
  ultimately have "is_mismatch i" by (simp only: list_all_iff)
  then show ?thesis by (simp add: is_mismatch_def)
qed

text \<open>
  C10. When strict mode is off, no error and no warning of \<open>check_file\<close> has the kind
  \<open>missing_annotation\<close>, whatever the file holds and whether or not it parses: the
  extractor's list of missing-annotation sites is empty for every tree, because both of
  its appends are guarded by the strict flag, so the replay of that list, the warning
  branch included, emits nothing.
\<close>

theorem C10_no_missing_annotation_nonstrict:
  assumes "\<not> cfg_strict cfg"
  shows "(\<forall>i\<in>set (errors (snd (check_file py cfg read_and_parse ck file_path))).
            i_type i \<noteq> ''missing_annotation'')
    \<and> (\<forall>i\<in>set (warnings (snd (check_file py cfg read_and_parse ck file_path))).
            i_type i \<noteq> ''missing_annotation'')
    \<and> w_missing_annotations (analyze_ast cfg tree) = []"
proof (cases "read_and_parse file_path")
  case (Parsed t)
  have e: "errors (snd (check_file py cfg read_and_parse ck file_path))
        = concat (map (mismatch_issue cfg (inferrer_after py cfg ck t) file_path) (walk t))"
    using assms Parsed by (rule check_file_nonstrict(1))
  have w: "warnings (snd (check_file py cfg read_and_parse ck file_path)) = []"
    using assms Parsed by (rule check_file_nonstrict(2))
  have a: "w_missing_annotations (analyze_ast cfg tree) = []"
    using assms by (rule analyze_ast_missing)
  show ?thesis
    unfolding e w a using mismatch_not_missing by simp
next
  case (Syntax_error m)
  then show ?thesis
    using assms by (simp add: check_file_def parse_file_def analyze_ast_missing)
next
  case (Other_error m)
  then show ?thesis
    using assms by (simp add: check_file_def parse_file_def analyze_ast_missing)
qed

theorem C10_no_missing_annotation_nonstrict_witness:
  "\<not> cfg_strict default_config
   \<and> filter (\<lambda>i. i_type i = ''missing_annotation'')
        (errors (snd (check_file sample_builtins default_config
           (\<lambda>p. Parsed example_unannotated) new_checker ''m.py''))) = []
   \<and> filter (\<lambda>i. i_type i = ''missing_annotation'')
        (warnings (snd (check_file sample_builtins default_config
           (\<lambda>p. Parsed example_unannotated) new_checker ''m.py''))) = []
   \<and> w_missing_annotations (analyze_ast default_config example_unannotated) = []"
proof -
  have h: "\<not> cfg_strict default_config" by (simp add: default_config_def)
  note c = C10_no_missing_annotation_nonstrict [OF h, of sample_builtins
      "\<lambda>p. Parsed example_unannotated" new_checker "''m.py''" example_unannotated]
  have e: "filter (\<lambda>i. i_type i = ''missing_annotation'')
        (errors (snd (check_file sample_builtins default_config
           (\<lambda>p. Parsed example_unannotated) new_checker ''m.py''))) = []"
    using c [THEN conjunct1] by (simp only: filter_False)
  have w: "filter (\<lambda>i. i_type i = ''missing_annotation'')
        (warnings (snd (check_file sample_builtins default_config
           (\<lambda>p. Parsed example_unannotated) new_checker ''m.py''))) = []"
    using c [THEN conjunct2, THEN conjunct1] by (simp only: filter_False)
  from h e w c [THEN conjunct2, THEN conjunct2] show ?thesis by (intro conjI)
qed


subsection \<open>The variable pass and the seed\<close>

lemma infer_stale_seed:
  "variable_types (infer_types sample_builtins empty_inferrer example_stale_seed)
     = [(''x'', ''int'')]"
  by (simp add: example_stale_seed_def pass_defs empty_inferrer_def)

text \<open>
  C5, as claimed, fails where the expression's type is not inferable: after \<open>x: int = 1\<close>
  and \<open>x = a.b\<close> the entry of \<open>x\<close> is still the seed type \<open>int\<close>, while the expression rule
  gives nothing for \<open>a.b\<close>; the store is guarded by \<open>if inferred_type\<close>.
\<close>

theorem C5_stale_seed_counterexample:
  "map_of (variable_types (infer_types sample_builtins empty_inferrer example_stale_seed)) ''x''
     = Some ''int''
   \<and> infer_expression_type (infer_types sample_builtins empty_inferrer example_stale_seed)
        (Attribute (Name ''a'') ''b'') = None
   \<and> assigns_name ''x'' (Assign [Name ''x''] (Attribute (Name ''a'') ''b'') 2)
   \<and> Assign [Name ''x''] (Attribute (Name ''a'') ''b'') 2 \<in> set (walk example_stale_seed)"
  by (simp add: infer_stale_seed assigns_name_def) (simp add: example_stale_seed_def walk_def)


lemma truthy_the: "truthy t \<Longrightarrow> Some (the t) = t"
  by (cases t) simp_all

lemma target_other:
  "t \<noteq> Name x \<Longrightarrow>
   map_of (variable_types (infer_variable_types_target val t st)) x = map_of (variable_types st) x"
  by (cases t) (auto simp: infer_variable_types_target_def Let_def update_conv')

lemma targets_other:
  "Name x \<notin> set ts \<Longrightarrow>
   map_of (variable_types (fold (infer_variable_types_target val) ts st)) x
     = map_of (variable_types st) x"
proof (induction ts arbitrary: st)
  case Nil
  show ?case by simp
next
  case (Cons t ts)
  then have "t \<noteq> Name x" "Name x \<notin> set ts" by auto
  with Cons.IH show ?case by (simp add: target_other)
qed

lemma target_this:
  "map_of (variable_types (infer_variable_types_target val (Name x) st)) x =
     (if truthy (infer_expression_type st val) then infer_expression_type st val
      else map_of (variable_types st) x)"
  by (simp add: infer_variable_types_target_def Let_def update_conv' truthy_the)

lemma node_other:
  "\<not> assigns_name x n \<Longrightarrow>
   map_of (variable_types (infer_variable_types_node n st)) x = map_of (variable_types st) x"
  by (cases n) (simp_all add: infer_variable_types_node_def assigns_name_def targets_other)

lemma nodes_other:
  "\<forall>n\<in>set ns. \<not> assigns_name x n \<Longrightarrow>
   map_of (variable_types (fold infer_variable_types_node ns st)) x = map_of (variable_types st) x"
proof (induction ns arbitrary: st)
  case Nil
  show ?case by simp
next
  case (Cons n ns)
  then show ?case by (simp add: node_other)
qed

text \<open>
  C5, amended. For a name that is a target of an assignment (whether or not the seed pass
  gave it a type), take the last assignment to it in walk order. If the expression rule,
  applied in the engine's state at that moment, gives an inferable type (not \<open>None\<close>, not
  empty), the final \<open>variable_types\<close> entry after \<open>infer_types\<close> is that type: the variable
  pass stores it over any earlier value, the seed value included. If the type is not
  inferable, the pass stores nothing and the entry stays what it was before that
  assignment.
\<close>

theorem C5_assignment_overwrites:
  assumes "walk tree = pre @ Assign (before @ Name x # after) val lineno # post"
    and "Name x \<notin> set after"
    and "\<forall>n\<in>set post. \<not> assigns_name x n"
  shows "map_of (variable_types (infer_types py st tree)) x =
     (if truthy (infer_expression_type (state_before_target py st tree pre val before) val)
      then infer_expression_type (state_before_target py st tree pre val before) val
      else map_of (variable_types (state_before_target py st tree pre val before)) x)"
proof -
  let ?s2 = "infer_function_signatures py tree (collect_basic_types py tree
                (st\<lparr>type_map := [], function_signatures := [], variable_types := []\<rparr>))"
  let ?sb = "state_before_target py st tree pre val before"
  have "infer_types py st tree = fold infer_variable_types_node (walk tree) ?s2"
    by (simp add: infer_types_def infer_variable_types_def Let_def)
  also have "\<dots> = fold infer_variable_types_node post
       (fold (infer_variable_types_target val) after (infer_variable_types_target val (Name x) ?sb))"
    by (simp add: assms(1) infer_variable_types_node_def state_before_target_def)
  finally have "map_of (variable_types (infer_types py st tree)) x
      = map_of (variable_types (infer_variable_types_target val (Name x) ?sb)) x"
    by (simp add: nodes_other [OF assms(3)] targets_other [OF assms(2)])
  then show ?thesis by (simp add: target_this)
qed

theorem C5_assignment_overwrites_witness:
  "map_of (variable_types (infer_types sample_builtins empty_inferrer example_reassigned)) ''x''
     = Some ''str''"
proof -
  have w: "walk example_reassigned =
      [example_reassigned, AnnAssign (Name ''x'') (Name ''int'') (Some (Constant (CInt 1))) 1]
      @ Assign ([] @ Name ''x'' # []) (Constant (CStr ''s'')) 2
      # [Name ''x'', Name ''int'', Constant (CInt 1), Name ''x'', Constant (CStr ''s'')]"
    by (simp add: example_reassigned_def walk_def)
  have a: "Name ''x'' \<notin> set []" by simp
  have p: "\<forall>n\<in>set [Name ''x'', Name ''int'', Constant (CInt 1), Name ''x'',
      Constant (CStr ''s'')]. \<not> assigns_name ''x'' n"
    by (simp add: assigns_name_def)
  from C5_assignment_overwrites [OF w a p, of sample_builtins empty_inferrer]
  show ?thesis by simp
qed


subsection \<open>The signature pass and the seed\<close>

lemma infer_annotated_str:
  "function_signatures (infer_types sample_builtins empty_inferrer example_annotated_str)
     = [(''f'', \<lparr>sig_args = None, sig_returns = Some ''str''\<rparr>)]"
  by (simp add: example_annotated_str_def pass_defs empty_inferrer_def)

text \<open>
  C4, as claimed, fails: for \<open>def f(x) -> int: return "s"\<close> the seed pass records the
  annotated \<open>int\<close>, then the signature pass infers \<open>str\<close> from the return statement and
  stores its signature under the same name, so the entry of \<open>f\<close> ends with \<open>str\<close>.
\<close>

theorem C4_annotation_replaced_counterexample:
  "map_of (function_signatures
       (infer_types sample_builtins empty_inferrer example_annotated_str)) ''f''
     = Some \<lparr>sig_args = None, sig_returns = Some ''str''\<rparr>
   \<and> TypeInferrer_get_type_name sample_builtins (Some (Name ''int'')) = Some ''int''"
  by (simp add: infer_annotated_str)


lemma seed_other:
  "\<not> defines_function f n \<Longrightarrow>
   map_of (function_signatures (collect_basic_types_node py n st)) f
     = map_of (function_signatures st) f"
  by (cases n)
     (auto simp: collect_basic_types_node_def defines_function_def Let_def update_conv'
        split: node.split)

lemma seed_others:
  "\<forall>n\<in>set ns. \<not> defines_function f n \<Longrightarrow>
   map_of (function_signatures (fold (collect_basic_types_node py) ns st)) f
     = map_of (function_signatures st) f"
proof (induction ns arbitrary: st)
  case Nil
  show ?case by simp
next
  case (Cons n ns)
  then show ?case by (simp add: seed_other)
qed

lemma seed_this:
  assumes "truthy (TypeInferrer_get_type_name py r)"
  shows "map_of (function_signatures
           (collect_basic_types_node py (FunctionDef f a b d r ln) st)) f
     = Some \<lparr>sig_args = None, sig_returns = TypeInferrer_get_type_name py r\<rparr>"
proof -
  from assms have "r \<noteq> None" by (cases r) simp_all
  with assms show ?thesis
    by (simp add: collect_basic_types_node_def Let_def update_conv')
qed

lemma sig_other:
  "\<not> defines_function f n \<Longrightarrow>
   map_of (function_signatures (infer_function_signatures_node py n st)) f
     = map_of (function_signatures st) f"
  by (cases n)
     (auto simp: infer_function_signatures_node_def defines_function_def update_conv'
        split: option.split)

lemma sig_others:
  "\<forall>n\<in>set ns. \<not> defines_function f n \<Longrightarrow>
   map_of (function_signatures (fold (infer_function_signatures_node py) ns st)) f
     = map_of (function_signatures st) f"
proof (induction ns arbitrary: st)
  case Nil
  show ?case by simp
next
  case (Cons n ns)
  then show ?case by (simp add: sig_other)
qed

lemma sig_this:
  "map_of (function_signatures
       (infer_function_signatures_node py (FunctionDef f a b d r ln) st)) f =
     (case infer_function_signature py st (FunctionDef f a b d r ln) of
        Some sg \<Rightarrow> Some sg
      | None \<Rightarrow> map_of (function_signatures st) f)"
  by (simp add: infer_function_signatures_node_def update_conv' split: option.split)

lemma sig_inert_node:
  assumes "defines_function f n \<longrightarrow> (\<forall>s. infer_function_signature py s n = None)"
  shows "map_of (function_signatures (infer_function_signatures_node py n st)) f
     = map_of (function_signatures st) f"
proof (cases "defines_function f n")
  case True
  with assms have "infer_function_signature py st n = None" by simp
  then show ?thesis
    by (cases n) (simp_all add: infer_function_signatures_node_def)
next
  case False
  then show ?thesis by (rule sig_other)
qed

lemma sig_inert:
  "\<forall>n\<in>set ns. defines_function f n \<longrightarrow> (\<forall>s. infer_function_signature py s n = None) \<Longrightarrow>
   map_of (function_signatures (fold (infer_function_signatures_node py) ns st)) f
     = map_of (function_signatures st) f"
proof (induction ns arbitrary: st)
  case Nil
  show ?case by simp
next
  case (Cons n ns)
  then show ?case by (simp add: sig_inert_node)
qed

lemma var_target_keeps:
  "function_signatures (infer_variable_types_target val t st) = function_signatures st"
  by (cases t) (simp_all add: infer_variable_types_target_def Let_def)

lemma var_targets_keep:
  "function_signatures (fold (infer_variable_types_target val) ts st) = function_signatures st"
  by (induction ts arbitrary: st) (simp_all add: var_target_keeps)

lemma var_node_keeps:
  "function_signatures (infer_variable_types_node n st) = function_signatures st"
  by (cases n) (simp_all add: infer_variable_types_node_def var_targets_keep)

lemma var_pass_keeps:
  "function_signatures (fold infer_variable_types_node ns st) = function_signatures st"
  by (induction ns arbitrary: st) (simp_all add: var_node_keeps)

lemma infer_types_signatures:
  "function_signatures (infer_types py st tree) =
     function_signatures (fold (infer_function_signatures_node py) (walk tree)
       (collect_basic_types py tree
          (st\<lparr>type_map := [], function_signatures := [], variable_types := []\<rparr>)))"
  by (simp add: infer_types_def Let_def infer_variable_types_def var_pass_keeps
      infer_function_signatures_def)

lemma sig_nothing_node:
  assumes "defines_function f n \<longrightarrow> infer_function_signature py st n = None"
  shows "map_of (function_signatures (infer_function_signatures_node py n st)) f
     = map_of (function_signatures st) f"
proof (cases "defines_function f n")
  case True
  with assms have "infer_function_signature py st n = None" by simp
  then show ?thesis
    by (cases n) (simp_all add: infer_function_signatures_node_def)
next
  case False
  then show ?thesis by (rule sig_other)
qed

lemma sig_nothing:
  "infers_nothing py f ns st \<Longrightarrow>
   map_of (function_signatures (fold (infer_function_signatures_node py) ns st)) f
     = map_of (function_signatures st) f"
proof (induction ns arbitrary: st)
  case Nil
  show ?case by simp
next
  case (Cons n ns)
  then show ?case by (simp add: sig_nothing_node)
qed

lemma infers_nothing_append:
  "infers_nothing py f (xs @ ys) st \<longleftrightarrow>
     infers_nothing py f xs st
     \<and> infers_nothing py f ys (fold (infer_function_signatures_node py) xs st)"
  by (induction xs arbitrary: st) auto

lemma seed_unannotated:
  "\<not> annotates_function py f n \<Longrightarrow>
   map_of (function_signatures (collect_basic_types_node py n st)) f
     = map_of (function_signatures st) f"
  by (cases n)
     (auto simp: collect_basic_types_node_def annotates_function_def Let_def update_conv'
        split: node.split)

lemma seed_unannotated_fold:
  "\<forall>n\<in>set ns. \<not> annotates_function py f n \<Longrightarrow>
   map_of (function_signatures (fold (collect_basic_types_node py) ns st)) f
     = map_of (function_signatures st) f"
proof (induction ns arbitrary: st)
  case Nil
  show ?case by simp
next
  case (Cons n ns)
  then show ?case by (simp add: seed_unannotated)
qed

lemma seed_entry:
  assumes "walk tree = pre @ FunctionDef f a b d r ln # post"
    and "truthy (TypeInferrer_get_type_name py r)"
    and "\<forall>n\<in>set post. \<not> annotates_function py f n"
  shows "map_of (function_signatures (seed_state py st tree)) f
     = Some \<lparr>sig_args = None, sig_returns = TypeInferrer_get_type_name py r\<rparr>"
  using assms(2)
  by (simp add: seed_state_def collect_basic_types_def assms(1)
      seed_unannotated_fold [OF assms(3)] seed_this)

lemma infer_types_signatures_seed:
  "function_signatures (infer_types py st tree) =
     function_signatures (fold (infer_function_signatures_node py) (walk tree)
       (seed_state py st tree))"
  by (simp add: infer_types_signatures seed_state_def)

lemma state_before_function_seed:
  "state_before_function py st tree pre =
     fold (infer_function_signatures_node py) pre (seed_state py st tree)"
  by (simp add: state_before_function_def seed_state_def)

text \<open>
  C4, amended. Take a definition of \<open>f\<close> whose return type is annotated with a non-empty
  type name, the last such definition in walk order. The seed pass records the annotated
  return type as the entry of \<open>f\<close>. If the signature pass, in the run itself, infers
  nothing (no argument type and no return type) at every definition of \<open>f\<close>, the entry
  after \<open>infer_types\<close> still records the annotated return type: no later pass discards it.
  If the pass infers a signature at some definition of \<open>f\<close> and nothing at the definitions
  of \<open>f\<close> after it, that signature replaces the seed entry and is the entry after
  \<open>infer_types\<close>. In particular, when the annotated definition is the last definition of
  \<open>f\<close>, the entry is the signature inferred for it, if any, and otherwise the entry as it
  was when the pass reached it.
\<close>

theorem C4_seed_entry:
  assumes "walk tree = pre @ FunctionDef f a b d r ln # post"
    and "truthy (TypeInferrer_get_type_name py r)"
    and "\<forall>n\<in>set post. \<not> annotates_function py f n"
  shows "map_of (function_signatures (seed_state py st tree)) f
           = Some \<lparr>sig_args = None, sig_returns = TypeInferrer_get_type_name py r\<rparr>
    \<and> (infers_nothing py f (walk tree) (seed_state py st tree)
       \<longrightarrow> map_of (function_signatures (infer_types py st tree)) f
            = Some \<lparr>sig_args = None, sig_returns = TypeInferrer_get_type_name py r\<rparr>)
    \<and> (\<forall>before n after sg.
          walk tree = before @ n # after \<and> defines_function f n
          \<and> infer_function_signature py (state_before_function py st tree before) n = Some sg
          \<and> infers_nothing py f after
                (infer_function_signatures_node py n (state_before_function py st tree before))
          \<longrightarrow> map_of (function_signatures (infer_types py st tree)) f = Some sg)
    \<and> ((\<forall>n\<in>set post. \<not> defines_function f n)
       \<longrightarrow> map_of (function_signatures (infer_types py st tree)) f =
            (case infer_function_signature py (state_before_function py st tree pre)
                    (FunctionDef f a b d r ln) of
               Some sg \<Rightarrow> Some sg
             | None \<Rightarrow> map_of (function_signatures (state_before_function py st tree pre)) f))"
proof (intro conjI)
  show "map_of (function_signatures (seed_state py st tree)) f
           = Some \<lparr>sig_args = None, sig_returns = TypeInferrer_get_type_name py r\<rparr>"
    using assms by (rule seed_entry)
next
  show "infers_nothing py f (walk tree) (seed_state py st tree)
       \<longrightarrow> map_of (function_signatures (infer_types py st tree)) f
            = Some \<lparr>sig_args = None, sig_returns = TypeInferrer_get_type_name py r\<rparr>"
  proof
    assume h: "infers_nothing py f (walk tree) (seed_state py st tree)"
    then have "map_of (function_signatures (infer_types py st tree)) f
        = map_of (function_signatures (seed_state py st tree)) f"
      by (simp add: infer_types_signatures_seed sig_nothing)
    also have "\<dots> = Some \<lparr>sig_args = None, sig_returns = TypeInferrer_get_type_name py r\<rparr>"
      using assms by (rule seed_entry)
    finally show "map_of (function_signatures (infer_types py st tree)) f
            = Some \<lparr>sig_args = None, sig_returns = TypeInferrer_get_type_name py r\<rparr>" .
  qed
next
  show "\<forall>before n after sg.
          walk tree = before @ n # after \<and> defines_function f n
          \<and> infer_function_signature py (state_before_function py st tree before) n = Some sg
          \<and> infers_nothing py f after
                (infer_function_signatures_node py n (state_before_function py st tree before))
          \<longrightarrow> map_of (function_signatures (infer_types py st tree)) f = Some sg"
  proof (intro allI impI)
    fix before n after sg
    assume h: "walk tree = before @ n # after \<and> defines_function f n
          \<and> infer_function_signature py (state_before_function py st tree before) n = Some sg
          \<and> infers_nothing py f after
                (infer_function_signatures_node py n (state_before_function py st tree before))"
    let ?sb = "state_before_function py st tree before"
    from h obtain nm a' b' d' r' ln' where n: "n = FunctionDef nm a' b' d' r' ln'"
      by (cases n) (simp_all add: defines_function_def)
    with h have nm: "nm = f" by (simp add: defines_function_def)
    from h have "map_of (function_signatures (infer_types py st tree)) f
        = map_of (function_signatures (infer_function_signatures_node py n ?sb)) f"
      by (simp add: infer_types_signatures_seed state_before_function_seed sig_nothing)
    also have "\<dots> = Some sg"
      using h unfolding n nm by (simp add: sig_this)
    finally show "map_of (function_signatures (infer_types py st tree)) f = Some sg" .
  qed
next
  show "(\<forall>n\<in>set post. \<not> defines_function f n)
       \<longrightarrow> map_of (function_signatures (infer_types py st tree)) f =
            (case infer_function_signature py (state_before_function py st tree pre)
                    (FunctionDef f a b d r ln) of
               Some sg \<Rightarrow> Some sg
             | None \<Rightarrow> map_of (function_signatures (state_before_function py st tree pre)) f)"
  proof
    assume l: "\<forall>n\<in>set post. \<not> defines_function f n"
    show "map_of (function_signatures (infer_types py st tree)) f =
            (case infer_function_signature py (state_before_function py st tree pre)
                    (FunctionDef f a b d r ln) of
               Some sg \<Rightarrow> Some sg
             | None \<Rightarrow> map_of (function_signatures (state_before_function py st tree pre)) f)"
      unfolding state_before_function_def
      by (simp add: infer_types_signatures assms(1) sig_others [OF l] sig_this)
  qed
qed

lemma seed_example_annotated_return_name:
  "seed_state sample_builtins empty_inferrer example_annotated_return_name =
     \<lparr>type_map = [],
      function_signatures = [(''f'', \<lparr>sig_args = None, sig_returns = Some ''int''\<rparr>)],
      variable_types = []\<rparr>"
  by (simp add: seed_state_def example_annotated_return_name_def pass_defs empty_inferrer_def)

lemma walk_example_annotated_return_name:
  "walk example_annotated_return_name =
     [example_annotated_return_name]
     @ FunctionDef ''f'' (Arguments [] [] None [] [] None []) [Return (Some (Name ''y''))] []
         (Some (Name ''int'')) 1
     # [Arguments [] [] None [] [] None [], Return (Some (Name ''y'')), Name ''int'', Name ''y'']"
  by (simp add: example_annotated_return_name_def walk_def)

lemma example_annotated_return_name_root:
  "\<not> defines_function f example_annotated_return_name"
  "infer_function_signatures_node py example_annotated_return_name s = s"
  by (simp_all add: defines_function_def infer_function_signatures_node_def
      example_annotated_return_name_def)

lemma example_annotated_return_name_nothing:
  "infer_function_signature sample_builtins
     \<lparr>type_map = [],
      function_signatures = [(''f'', \<lparr>sig_args = None, sig_returns = Some ''int''\<rparr>)],
      variable_types = []\<rparr>
     (FunctionDef ''f'' (Arguments [] [] None [] [] None []) [Return (Some (Name ''y''))] []
        (Some (Name ''int'')) 1) = None"
  by (simp add: pass_defs)

lemma example_annotated_return_name_infers_nothing:
  "infers_nothing sample_builtins ''f'' (walk example_annotated_return_name)
     (seed_state sample_builtins empty_inferrer example_annotated_return_name)"
  by (simp add: walk_example_annotated_return_name seed_example_annotated_return_name
      example_annotated_return_name_root example_annotated_return_name_nothing)
     (simp add: defines_function_def infer_function_signatures_node_def
        example_annotated_return_name_nothing)

lemma walk_example_annotated_str:
  "walk example_annotated_str =
     [example_annotated_str]
     @ FunctionDef ''f'' (Arguments [] [Arg ''x'' None] None [] [] None [])
         [Return (Some (Constant (CStr ''s'')))] [] (Some (Name ''int'')) 1
     # [Arguments [] [Arg ''x'' None] None [] [] None [],
        Return (Some (Constant (CStr ''s''))), Name ''int'', Arg ''x'' None,
        Constant (CStr ''s'')]"
  by (simp add: example_annotated_str_def walk_def)

lemma example_annotated_str_root:
  "infer_function_signatures_node py example_annotated_str s = s"
  by (simp add: infer_function_signatures_node_def example_annotated_str_def)

lemma example_annotated_str_inferred:
  "infer_function_signature sample_builtins s
     (FunctionDef ''f'' (Arguments [] [Arg ''x'' None] None [] [] None [])
         [Return (Some (Constant (CStr ''s'')))] [] (Some (Name ''int'')) 1)
     = Some \<lparr>sig_args = None, sig_returns = Some ''str''\<rparr>"
  by (simp add: pass_defs)

lemma example_annotated_str_after:
  "infers_nothing sample_builtins ''f''
     [Arguments [] [Arg ''x'' None] None [] [] None [],
      Return (Some (Constant (CStr ''s''))), Name ''int'', Arg ''x'' None,
      Constant (CStr ''s'')] s"
  by (simp add: defines_function_def infer_function_signatures_node_def)


theorem C4_seed_entry_witness:
  "map_of (function_signatures
       (infer_types sample_builtins empty_inferrer example_annotated_return_name)) ''f''
     = Some \<lparr>sig_args = None, sig_returns = Some ''int''\<rparr>
   \<and> map_of (function_signatures
       (infer_types sample_builtins empty_inferrer example_annotated_str)) ''f''
     = Some \<lparr>sig_args = None, sig_returns = Some ''str''\<rparr>"
proof -
  have p: "\<forall>n\<in>set [Arguments [] [] None [] [] None [], Return (Some (Name ''y'')),
      Name ''int'', Name ''y'']. \<not> annotates_function sample_builtins ''f'' n"
    by (simp add: annotates_function_def)
  have t: "truthy (TypeInferrer_get_type_name sample_builtins (Some (Name ''int'')))"
    by simp
  from C4_seed_entry [OF walk_example_annotated_return_name t p, of empty_inferrer,
      THEN conjunct2, THEN conjunct1, THEN mp,
      OF example_annotated_return_name_infers_nothing]
  have kept: "map_of (function_signatures
       (infer_types sample_builtins empty_inferrer example_annotated_return_name)) ''f''
     = Some \<lparr>sig_args = None, sig_returns = Some ''int''\<rparr>"
    by simp

  have p2: "\<forall>n\<in>set [Arguments [] [Arg ''x'' None] None [] [] None [],
        Return (Some (Constant (CStr ''s''))), Name ''int'', Arg ''x'' None,
        Constant (CStr ''s'')]. \<not> annotates_function sample_builtins ''f'' n"
    by (simp add: annotates_function_def)
  have t2: "truthy (TypeInferrer_get_type_name sample_builtins (Some (Name ''int'')))"
    by simp
  have d2: "defines_function ''f''
     (FunctionDef ''f'' (Arguments [] [Arg ''x'' None] None [] [] None [])
         [Return (Some (Constant (CStr ''s'')))] [] (Some (Name ''int'')) 1)"
    by (simp add: defines_function_def)
  note c2 = C4_seed_entry [OF walk_example_annotated_str t2 p2, of empty_inferrer,
      THEN conjunct2, THEN conjunct2, THEN conjunct1, rule_format]
  have replaced: "map_of (function_signatures
       (infer_types sample_builtins empty_inferrer example_annotated_str)) ''f''
     = Some \<lparr>sig_args = None, sig_returns = Some ''str''\<rparr>"
    by (rule c2 [OF conjI [OF walk_example_annotated_str
          conjI [OF d2 conjI [OF example_annotated_str_inferred example_annotated_str_after]]]])
  from kept replaced show ?thesis by (rule conjI)
qed


end
